theory Spec2Isabelle
  imports Complex_Main
begin

section \<open>Agent gateway of backend/server.py\<close>

text \<open>
  A shallow embedding of the request handlers of \<^verbatim>\<open>backend/server.py\<close>. A handler is a
  function of the per-request environment (clock, fresh identifier, fresh salt, what the
  store and the agents answer), of the application state (\<^verbatim>\<open>request.app.state\<close>) and of
  the request; it returns the response, or the exception that leaves the handler, and
  the application state afterwards. The operations covered are signup, login, companion
  chat, chat history, daily quote, generic agent chat, search and capabilities, with the
  helpers they call; the root and status-check routes are left out. Python names with a
  leading underscore lose it
  (\<^verbatim>\<open>_create_token\<close> is \<open>create_token\<close>); fields of the pydantic classes carry a prefix
  for their class, since a field name is a constant of its own here.
\<close>

subsection \<open>Exceptions\<close>

text \<open>
  \<open>HTTPException\<close> is the framework's exception, which becomes the transport-level status
  code. \<open>Error\<close> is every other exception, kept by its \<^verbatim>\<open>str()\<close>. Instants are whole
  seconds since the epoch.
\<close>

datatype exn = HTTPException nat string | Error string

type_synonym time = int

function str_nat :: "nat \<Rightarrow> string" where
  "str_nat n =
     (if n < 10 then [char_of (48 + n)]
      else str_nat (n div 10) @ [char_of (48 + n mod 10)])"
  by pat_completeness auto
termination
  by (relation "measure (\<lambda>n. n)") auto

declare str_nat.simps [simp del]

text \<open>\<^verbatim>\<open>str(exc)\<close>; the framework prints an HTTPException as status code, colon, detail.\<close>

fun str_exn :: "exn \<Rightarrow> string" where
  "str_exn (HTTPException status_code detail) = str_nat status_code @ '': '' @ detail"
| "str_exn (Error m) = m"

subsection \<open>Token codec and password hash\<close>

text \<open>The payload \<^verbatim>\<open>_create_token\<close> builds: \<^verbatim>\<open>user_id\<close>, \<^verbatim>\<open>username\<close>, \<^verbatim>\<open>exp\<close>.\<close>

record payload =
  p_user_id :: string
  p_username :: string
  p_exp :: time

text \<open>
  Modelled from the spec: the signed token codec (\<^verbatim>\<open>jwt.encode\<close>, \<^verbatim>\<open>jwt.decode\<close> of the
  PyJWT library, not part of the repository). The signature is symbolic: a well-formed
  token is a payload together with the key and the algorithm it was signed with, every
  other string is \<open>Malformed\<close>. Decoding checks the structure, then the signature
  against the given key and algorithms, then the expiry: it fails with the expiry
  error when the current time is at or past the encoded expiry.
\<close>

datatype token = Jws string string payload | Malformed string

datatype jwt_error = ExpiredSignatureError | InvalidTokenError

definition jwt_encode :: "payload \<Rightarrow> string \<Rightarrow> string \<Rightarrow> token" where
  "jwt_encode p key algorithm = Jws key algorithm p"

fun jwt_decode :: "time \<Rightarrow> token \<Rightarrow> string \<Rightarrow> string list \<Rightarrow> jwt_error + payload" where
  "jwt_decode t (Malformed s) key algorithms = Inl InvalidTokenError"
| "jwt_decode t (Jws k a p) key algorithms =
     (if a \<notin> set algorithms then Inl InvalidTokenError
      else if k \<noteq> key then Inl InvalidTokenError
      else if p_exp p \<le> t then Inl ExpiredSignatureError
      else Inr p)"

text \<open>
  Modelled from the spec: the salted password hash (\<^verbatim>\<open>bcrypt.hashpw\<close>, \<^verbatim>\<open>bcrypt.checkpw\<close>,
  not part of the repository), symbolic as well: a hash is the salt and the password it
  was made from, and a password verifies against the hashes made from it.
\<close>

datatype pwhash = Bcrypt string string

definition hashpw :: "string \<Rightarrow> string \<Rightarrow> pwhash" where
  "hashpw password salt = Bcrypt salt password"

fun checkpw :: "string \<Rightarrow> pwhash \<Rightarrow> bool" where
  "checkpw password (Bcrypt salt p) = (p = password)"

subsection \<open>Request and response classes\<close>

text \<open>
  Values a free-form Python dict may hold. A float is a finite value, an infinity or
  NaN; a finite value is kept as the real number it denotes.
\<close>

datatype pyfloat = Finite real | Infinity | NegInfinity | NaN

datatype pyval =
    PNone
  | PBool bool
  | PInt int
  | PFloat pyfloat
  | PStr string
  | POther bool  \<comment> \<open>any other object (a list, a dict), with its truth value\<close>

type_synonym pydict = "(string \<times> pyval) list"



record SearchRequest =
  sq_query :: string
  sq_max_results :: int

record SearchResponse =
  sr_success :: bool
  sr_query :: string
  sr_summary :: string
  sr_search_results :: "pydict option"
  sr_sources_count :: int
  sr_error :: "string option"

record UserSignup =
  su_username :: string
  su_email :: string
  su_password :: string

record UserLogin =
  li_username :: string
  li_password :: string

record AuthResponse =
  ar_success :: bool
  ar_token :: "token option"
  ar_username :: "string option"
  ar_message :: "string option"

record MotivationalChatResponse =
  mc_success :: bool
  mc_response :: string
  mc_timestamp :: time
  mc_error :: "string option"

record ChatMessage =
  cm_id :: string
  cm_user_id :: string
  cm_message :: string
  cm_response :: string
  cm_timestamp :: time

record DailyQuoteResponse =
  dq_success :: bool
  dq_quote :: string
  dq_timestamp :: time
  dq_error :: "string option"

text \<open>The two dicts \<^verbatim>\<open>get_chat_history\<close> returns, and the two of \<^verbatim>\<open>get_agent_capabilities\<close>.\<close>

record HistoryResponse =
  hr_success :: bool
  hr_messages :: "ChatMessage list option"
  hr_error :: "string option"

record CapabilitiesResponse =
  cp_success :: bool
  cp_search_agent :: "string list option"
  cp_chat_agent :: "string list option"
  cp_error :: "string option"

subsection \<open>Agents\<close>

text \<open>
  Modelled from the spec: the agents (\<^verbatim>\<open>ai_agents.agents\<close>: \<^verbatim>\<open>AgentConfig\<close>, \<^verbatim>\<open>ChatAgent\<close>,
  \<^verbatim>\<open>SearchAgent\<close>, not under src/). An agent result has a success flag, textual content,
  a free-form metadata mapping that may be absent, and an optional error. A handle is
  the object a constructor returned: its class, the configuration it was built from,
  and its identity, the number of agent objects built before it. Constructing a handle
  does not fail. What an agent answers to a prompt is the environment's.
\<close>

datatype AgentConfig = AgentConfig

datatype handle = SearchAgent AgentConfig nat | ChatAgent AgentConfig nat

record agent_result =
  success :: bool
  content :: string
  metadata :: "pydict option"
  error :: "string option"

subsection \<open>Store\<close>

record user_doc =
  ud_id :: string
  ud_username :: string
  ud_email :: string
  ud_password :: pwhash
  ud_created_at :: time

record database =
  users :: "user_doc list"
  chat_messages :: "ChatMessage list"

subsection \<open>Environment and application state\<close>

text \<open>
  What a request reads from outside the handler: the clock, the identifier
  \<^verbatim>\<open>uuid.uuid4()\<close> draws, the salt \<^verbatim>\<open>bcrypt.gensalt()\<close> draws, the configured signing secret,
  whether the k-th store call of the request raises (and with which text), what an
  agent answers (a result, or the text of the exception it raises; the third argument
  is \<^verbatim>\<open>use_tools\<close>, \<open>None\<close> when the call does not pass it), the capabilities of an agent,
  Python's conversion of a string to an integer with the text of the exception
  \<^verbatim>\<open>int()\<close> raises on a value it rejects, and the text of the exception pydantic
  raises when a \<^verbatim>\<open>ChatResponse\<close> is built with \<^verbatim>\<open>metadata=None\<close>.
\<close>

record env =
  now :: time
  uuid4 :: string
  gensalt :: string
  JWT_SECRET :: string
  store_fault :: "nat \<Rightarrow> string option"
  execute :: "handle \<Rightarrow> string \<Rightarrow> bool option \<Rightarrow> string + agent_result"
  get_capabilities :: "handle \<Rightarrow> string list"
  int_of_str :: "string \<Rightarrow> int option"
  int_error :: "pyval \<Rightarrow> string"
  validation_error :: string

text \<open>
  \<^verbatim>\<open>request.app.state\<close>. The handlers test for a missing \<^verbatim>\<open>db\<close> and a missing
  \<^verbatim>\<open>agent_cache\<close>, so both may be absent; \<^verbatim>\<open>agent_config\<close> is read without a test.
  \<open>constructed\<close> records, in order, the agent type of every constructor call.
\<close>

record app_state =
  db :: "database option"
  agent_config :: AgentConfig
  agent_cache :: "(string \<rightharpoonup> handle) option"
  constructed :: "string list"

text \<open>The state \<^verbatim>\<open>lifespan\<close> sets up before the first request.\<close>

definition lifespan :: "database \<Rightarrow> app_state" where
  "lifespan d =
     \<lparr>db = Some d, agent_config = AgentConfig, agent_cache = Some Map.empty, constructed = []\<rparr>"

text \<open>
  Modelled from the spec: the document store (motor over MongoDB, not part of the
  repository), a collection being the list of its documents in insertion order.
  \<open>find_one\<close> gives the first document that matches, \<open>insert_one\<close> appends,
  \<open>find_sort_limit\<close> is \<^verbatim>\<open>find(q).sort(key, -1).limit(n).to_list(n)\<close>: the matching
  documents, largest key first, at most n of them. The first argument numbers the
  store call within the request.
\<close>

definition find_one :: "env \<Rightarrow> nat \<Rightarrow> ('d \<Rightarrow> bool) \<Rightarrow> 'd list \<Rightarrow> exn + 'd option" where
  "find_one e k q coll =
     (case store_fault e k of Some m \<Rightarrow> Inl (Error m) | None \<Rightarrow> Inr (List.find q coll))"

definition insert_one :: "env \<Rightarrow> nat \<Rightarrow> 'd \<Rightarrow> 'd list \<Rightarrow> exn + 'd list" where
  "insert_one e k d coll =
     (case store_fault e k of Some m \<Rightarrow> Inl (Error m) | None \<Rightarrow> Inr (coll @ [d]))"

definition find_sort_limit ::
  "env \<Rightarrow> nat \<Rightarrow> ('d \<Rightarrow> bool) \<Rightarrow> ('d \<Rightarrow> int) \<Rightarrow> nat \<Rightarrow> 'd list \<Rightarrow> exn + 'd list" where
  "find_sort_limit e k q key n coll =
     (case store_fault e k of
        Some m \<Rightarrow> Inl (Error m)
      | None \<Rightarrow> Inr (take n (sort_key (\<lambda>d. - key d) (filter q coll))))"

subsection \<open>Helpers of the handlers\<close>

definition ensure_db :: "app_state \<Rightarrow> exn + database" where
  "ensure_db st =
     (case db st of
        None \<Rightarrow> Inl (HTTPException 503 ''Database not ready'')
      | Some d \<Rightarrow> Inr d)"

definition hash_password :: "env \<Rightarrow> string \<Rightarrow> pwhash" where
  "hash_password e password = hashpw password (gensalt e)"

definition verify_password :: "string \<Rightarrow> pwhash \<Rightarrow> bool" where
  "verify_password password hashed = checkpw password hashed"

definition JWT_ALGORITHM :: string where
  "JWT_ALGORITHM = ''HS256''"

definition create_token :: "env \<Rightarrow> string \<Rightarrow> string \<Rightarrow> token" where
  "create_token e user_id username =
     jwt_encode \<lparr>p_user_id = user_id, p_username = username, p_exp = now e + 86400 * 7\<rparr>
       (JWT_SECRET e) JWT_ALGORITHM"

text \<open>
  \<^verbatim>\<open>security = HTTPBearer()\<close>: a request without a bearer credential is rejected with 403
  before the handler runs (the repository's test \<^verbatim>\<open>test_unauthorized_access\<close> expects
  it). The credential of a request is \<open>None\<close> or the token it carries.
\<close>

definition security :: "token option \<Rightarrow> exn + token" where
  "security credentials =
     (case credentials of
        None \<Rightarrow> Inl (HTTPException 403 ''Not authenticated'')
      | Some tok \<Rightarrow> Inr tok)"

definition get_current_user :: "env \<Rightarrow> token \<Rightarrow> exn + payload" where
  "get_current_user e tok =
     (case jwt_decode (now e) tok (JWT_SECRET e) [JWT_ALGORITHM] of
        Inr p \<Rightarrow> Inr p
      | Inl ExpiredSignatureError \<Rightarrow> Inl (HTTPException 401 ''Token expired'')
      | Inl InvalidTokenError \<Rightarrow> Inl (HTTPException 401 ''Invalid token''))"

text \<open>\<^verbatim>\<open>Depends(_get_current_user)\<close>, which itself depends on \<^verbatim>\<open>security\<close>.\<close>

definition current_user_dependency :: "env \<Rightarrow> token option \<Rightarrow> exn + payload" where
  "current_user_dependency e credentials =
     (case security credentials of
        Inl x \<Rightarrow> Inl x
      | Inr tok \<Rightarrow> get_current_user e tok)"

definition get_agent_cache :: "app_state \<Rightarrow> (string \<rightharpoonup> handle) \<times> app_state" where
  "get_agent_cache st =
     (case agent_cache st of
        None \<Rightarrow> (Map.empty, st\<lparr>agent_cache := Some Map.empty\<rparr>)
      | Some c \<Rightarrow> (c, st))"

definition unknown_agent_type :: "string \<Rightarrow> string" where
  "unknown_agent_type agent_type =
     ''Unknown agent type '' @ [CHR 0x27] @ agent_type @ [CHR 0x27]"

definition get_or_create_agent :: "app_state \<Rightarrow> string \<Rightarrow> (exn + handle) \<times> app_state" where
  "get_or_create_agent st0 agent_type =
     (case get_agent_cache st0 of (cache, st) \<Rightarrow>
        (case cache agent_type of
           Some h \<Rightarrow> (Inr h, st)
         | None \<Rightarrow>
             (let config = agent_config st in
              if agent_type = ''search'' then
                (let h = SearchAgent config (length (constructed st)) in
                 (Inr h, st\<lparr>agent_cache := Some (cache(agent_type \<mapsto> h)),
                            constructed := constructed st @ [agent_type]\<rparr>))
              else if agent_type = ''chat'' then
                (let h = ChatAgent config (length (constructed st)) in
                 (Inr h, st\<lparr>agent_cache := Some (cache(agent_type \<mapsto> h)),
                            constructed := constructed st @ [agent_type]\<rparr>))
              else (Inl (HTTPException 400 (unknown_agent_type agent_type)), st))))"

text \<open>
  The two shapes of exception handling in the handlers. \<open>catch_all\<close> is
  \<^verbatim>\<open>except Exception as exc: return f(str(exc))\<close> alone, which also catches an
  HTTPException; \<open>reraise_http\<close> has \<^verbatim>\<open>except HTTPException: raise\<close> before it.
\<close>

definition catch_all :: "(string \<Rightarrow> 'r) \<Rightarrow> (exn + 'r) \<times> app_state \<Rightarrow> (exn + 'r) \<times> app_state" where
  "catch_all f res =
     (case res of
        (Inl x, st) \<Rightarrow> (Inr (f (str_exn x)), st)
      | (Inr r, st) \<Rightarrow> (Inr r, st))"

definition reraise_http :: "(string \<Rightarrow> 'r) \<Rightarrow> (exn + 'r) \<times> app_state \<Rightarrow> (exn + 'r) \<times> app_state" where
  "reraise_http f res =
     (case res of
        (Inl (HTTPException c d), st) \<Rightarrow> (Inl (HTTPException c d), st)
      | (Inl (Error m), st) \<Rightarrow> (Inr (f (str_exn (Error m))), st)
      | (Inr r, st) \<Rightarrow> (Inr r, st))"

text \<open>
  Python's \<^verbatim>\<open>dict.get\<close>, truth value, \<^verbatim>\<open>or\<close> and \<^verbatim>\<open>int()\<close> on the values above. \<^verbatim>\<open>int()\<close>
  cuts a finite float towards zero and raises on an infinity, on NaN, on \<^verbatim>\<open>None\<close>, on a
  string it cannot read and on any other object.
\<close>

definition dict_get :: "pydict \<Rightarrow> string \<Rightarrow> pyval \<Rightarrow> pyval" where
  "dict_get m k dflt = (case map_of m k of Some v \<Rightarrow> v | None \<Rightarrow> dflt)"

fun truthy :: "pyval \<Rightarrow> bool" where
  "truthy PNone = False"
| "truthy (PBool b) = b"
| "truthy (PInt n) = (n \<noteq> 0)"
| "truthy (PFloat f) = (f \<noteq> Finite 0)"
| "truthy (PStr s) = (s \<noteq> [])"
| "truthy (POther b) = b"

definition py_or :: "pyval \<Rightarrow> pyval \<Rightarrow> pyval" where
  "py_or v w = (if truthy v then v else w)"

fun py_int :: "env \<Rightarrow> pyval \<Rightarrow> exn + int" where
  "py_int e (PInt n) = Inr n"
| "py_int e (PBool b) = Inr (if b then 1 else 0)"
| "py_int e (PFloat (Finite x)) = Inr (if 0 \<le> x then \<lfloor>x\<rfloor> else \<lceil>x\<rceil>)"
| "py_int e (PStr s) =
     (case int_of_str e s of Some n \<Rightarrow> Inr n | None \<Rightarrow> Inl (Error (int_error e (PStr s))))"
| "py_int e v = Inl (Error (int_error e v))"

subsection \<open>Handlers\<close>

definition signup_try :: "env \<Rightarrow> app_state \<Rightarrow> UserSignup \<Rightarrow> (exn + AuthResponse) \<times> app_state" where
  "signup_try e st user =
     (case ensure_db st of
        Inl x \<Rightarrow> (Inl x, st)
      | Inr d \<Rightarrow>
          (case find_one e 0 (\<lambda>u. ud_username u = su_username user) (users d) of
             Inl x \<Rightarrow> (Inl x, st)
           | Inr (Some existing_user) \<Rightarrow>
               (Inr \<lparr>ar_success = False, ar_token = None, ar_username = None,
                     ar_message = Some ''Username already exists''\<rparr>, st)
           | Inr None \<Rightarrow>
               (case find_one e 1 (\<lambda>u. ud_email u = su_email user) (users d) of
                  Inl x \<Rightarrow> (Inl x, st)
                | Inr (Some existing_email) \<Rightarrow>
                    (Inr \<lparr>ar_success = False, ar_token = None, ar_username = None,
                          ar_message = Some ''Email already exists''\<rparr>, st)
                | Inr None \<Rightarrow>
                    (let user_id = uuid4 e;
                         user_doc = \<lparr>ud_id = user_id, ud_username = su_username user,
                                     ud_email = su_email user,
                                     ud_password = hash_password e (su_password user),
                                     ud_created_at = now e\<rparr>
                     in case insert_one e 2 user_doc (users d) of
                          Inl x \<Rightarrow> (Inl x, st)
                        | Inr us \<Rightarrow>
                            (let tok = create_token e user_id (su_username user) in
                             (Inr \<lparr>ar_success = True, ar_token = Some tok,
                                   ar_username = Some (su_username user),
                                   ar_message = Some ''Account created successfully''\<rparr>,
                              st\<lparr>db := Some (d\<lparr>users := us\<rparr>)\<rparr>))))))"

definition signup :: "env \<Rightarrow> app_state \<Rightarrow> UserSignup \<Rightarrow> (exn + AuthResponse) \<times> app_state" where
  "signup e st user =
     catch_all
       (\<lambda>m. \<lparr>ar_success = False, ar_token = None, ar_username = None, ar_message = Some m\<rparr>)
       (signup_try e st user)"

definition login_try :: "env \<Rightarrow> app_state \<Rightarrow> UserLogin \<Rightarrow> (exn + AuthResponse) \<times> app_state" where
  "login_try e st user =
     (case ensure_db st of
        Inl x \<Rightarrow> (Inl x, st)
      | Inr d \<Rightarrow>
          (case find_one e 0 (\<lambda>u. ud_username u = li_username user) (users d) of
             Inl x \<Rightarrow> (Inl x, st)
           | Inr None \<Rightarrow>
               (Inr \<lparr>ar_success = False, ar_token = None, ar_username = None,
                     ar_message = Some ''Invalid username or password''\<rparr>, st)
           | Inr (Some user_doc) \<Rightarrow>
               if \<not> verify_password (li_password user) (ud_password user_doc) then
                 (Inr \<lparr>ar_success = False, ar_token = None, ar_username = None,
                       ar_message = Some ''Invalid username or password''\<rparr>, st)
               else
                 (let tok = create_token e (ud_id user_doc) (ud_username user_doc) in
                  (Inr \<lparr>ar_success = True, ar_token = Some tok,
                        ar_username = Some (ud_username user_doc),
                        ar_message = Some ''Login successful''\<rparr>, st))))"

definition login :: "env \<Rightarrow> app_state \<Rightarrow> UserLogin \<Rightarrow> (exn + AuthResponse) \<times> app_state" where
  "login e st user =
     catch_all
       (\<lambda>m. \<lparr>ar_success = False, ar_token = None, ar_username = None, ar_message = Some m\<rparr>)
       (login_try e st user)"

definition motivational_prompt :: "string \<Rightarrow> string" where
  "motivational_prompt message =
     ''You are a supportive and encouraging AI companion designed to provide motivation and positivity.''
     @ [CHR 0x0A] @
     ''Your goal is to uplift users with positive encouragement, practical advice, and daily motivation.''
     @ [CHR 0x0A] @
     ''Be empathetic, understanding, and always maintain an optimistic yet realistic tone.''
     @ [CHR 0x0A] @
     ''Keep responses concise but meaningful.''
     @ [CHR 0x0A, CHR 0x0A] @
     ''User message: '' @ message"

definition motivational_chat_try ::
  "env \<Rightarrow> app_state \<Rightarrow> payload \<Rightarrow> string \<Rightarrow> (exn + MotivationalChatResponse) \<times> app_state" where
  "motivational_chat_try e st current_user message =
     (case ensure_db st of
        Inl x \<Rightarrow> (Inl x, st)
      | Inr d \<Rightarrow>
          (case get_or_create_agent st ''chat'' of
             (Inl x, st1) \<Rightarrow> (Inl x, st1)
           | (Inr agent, st1) \<Rightarrow>
               (case execute e agent (motivational_prompt message) None of
                  Inl m \<Rightarrow> (Inl (Error m), st1)
                | Inr result \<Rightarrow>
                    if \<not> success result then
                      (Inr \<lparr>mc_success = False, mc_response = [], mc_timestamp = now e,
                            mc_error = error result\<rparr>, st1)
                    else
                      (let chat_message =
                             \<lparr>cm_id = uuid4 e, cm_user_id = p_user_id current_user,
                              cm_message = message, cm_response = content result,
                              cm_timestamp = now e\<rparr>
                       in case insert_one e 0 chat_message (chat_messages d) of
                            Inl x \<Rightarrow> (Inl x, st1)
                          | Inr ms \<Rightarrow>
                              (Inr \<lparr>mc_success = True, mc_response = content result,
                                    mc_timestamp = now e, mc_error = None\<rparr>,
                               st1\<lparr>db := Some (d\<lparr>chat_messages := ms\<rparr>)\<rparr>)))))"

definition motivational_chat ::
  "env \<Rightarrow> app_state \<Rightarrow> token option \<Rightarrow> string \<Rightarrow> (exn + MotivationalChatResponse) \<times> app_state" where
  "motivational_chat e st credentials message =
     (case current_user_dependency e credentials of
        Inl x \<Rightarrow> (Inl x, st)
      | Inr current_user \<Rightarrow>
          reraise_http
            (\<lambda>m. \<lparr>mc_success = False, mc_response = [], mc_timestamp = now e, mc_error = Some m\<rparr>)
            (motivational_chat_try e st current_user message))"

definition get_chat_history_try ::
  "env \<Rightarrow> app_state \<Rightarrow> payload \<Rightarrow> (exn + HistoryResponse) \<times> app_state" where
  "get_chat_history_try e st current_user =
     (case ensure_db st of
        Inl x \<Rightarrow> (Inl x, st)
      | Inr d \<Rightarrow>
          (case find_sort_limit e 0 (\<lambda>m. cm_user_id m = p_user_id current_user)
                  cm_timestamp 50 (chat_messages d) of
             Inl x \<Rightarrow> (Inl x, st)
           | Inr messages \<Rightarrow>
               (Inr \<lparr>hr_success = True, hr_messages = Some messages, hr_error = None\<rparr>, st)))"

definition get_chat_history ::
  "env \<Rightarrow> app_state \<Rightarrow> token option \<Rightarrow> (exn + HistoryResponse) \<times> app_state" where
  "get_chat_history e st credentials =
     (case current_user_dependency e credentials of
        Inl x \<Rightarrow> (Inl x, st)
      | Inr current_user \<Rightarrow>
          reraise_http
            (\<lambda>m. \<lparr>hr_success = False, hr_messages = None, hr_error = Some m\<rparr>)
            (get_chat_history_try e st current_user))"

definition quote_prompt :: string where
  "quote_prompt =
     ''Generate a single inspiring and motivational quote.''
     @ [CHR 0x0A] @
     ''It should be uplifting, positive, and encouraging.''
     @ [CHR 0x0A] @
     ''Format: Just the quote itself, no attribution needed. Keep it concise and impactful.''"

definition get_daily_quote_try :: "env \<Rightarrow> app_state \<Rightarrow> (exn + DailyQuoteResponse) \<times> app_state" where
  "get_daily_quote_try e st =
     (case get_or_create_agent st ''chat'' of
        (Inl x, st1) \<Rightarrow> (Inl x, st1)
      | (Inr agent, st1) \<Rightarrow>
          (case execute e agent quote_prompt None of
             Inl m \<Rightarrow> (Inl (Error m), st1)
           | Inr result \<Rightarrow>
               if \<not> success result then
                 (Inr \<lparr>dq_success = False, dq_quote = [], dq_timestamp = now e,
                       dq_error = error result\<rparr>, st1)
               else
                 (Inr \<lparr>dq_success = True, dq_quote = content result, dq_timestamp = now e,
                       dq_error = None\<rparr>, st1)))"

definition get_daily_quote ::
  "env \<Rightarrow> app_state \<Rightarrow> token option \<Rightarrow> (exn + DailyQuoteResponse) \<times> app_state" where
  "get_daily_quote e st credentials =
     (case current_user_dependency e credentials of
        Inl x \<Rightarrow> (Inl x, st)
      | Inr current_user \<Rightarrow>
          reraise_http
            (\<lambda>m. \<lparr>dq_success = False, dq_quote = [], dq_timestamp = now e, dq_error = Some m\<rparr>)
            (get_daily_quote_try e st))"



definition search_prompt :: "string \<Rightarrow> string" where
  "search_prompt query =
     ''Search for information about: '' @ query @ ''. ''
     @ ''Provide a comprehensive summary with key findings.''"

text \<open>\<^verbatim>\<open>metadata.get("tool_run_count", metadata.get("tools_used", 0))\<close>\<close>

definition tool_count_entry :: "pydict \<Rightarrow> pyval" where
  "tool_count_entry md = dict_get md ''tool_run_count'' (dict_get md ''tools_used'' (PInt 0))"

definition search_and_summarize_try ::
  "env \<Rightarrow> app_state \<Rightarrow> SearchRequest \<Rightarrow> (exn + SearchResponse) \<times> app_state" where
  "search_and_summarize_try e st search_request =
     (case get_or_create_agent st ''search'' of
        (Inl x, st1) \<Rightarrow> (Inl x, st1)
      | (Inr search_agent, st1) \<Rightarrow>
          (case execute e search_agent (search_prompt (sq_query search_request)) (Some True) of
             Inl m \<Rightarrow> (Inl (Error m), st1)
           | Inr result \<Rightarrow>
               if success result then
                 (let md = (case metadata result of None \<Rightarrow> [] | Some m \<Rightarrow> m) in
                  case py_int e (py_or (tool_count_entry md) (PInt 0)) of
                    Inl x \<Rightarrow> (Inl x, st1)
                  | Inr n \<Rightarrow>
                      (Inr \<lparr>sr_success = True, sr_query = sq_query search_request,
                            sr_summary = content result, sr_search_results = Some md,
                            sr_sources_count = n, sr_error = None\<rparr>, st1))
               else
                 (Inr \<lparr>sr_success = False, sr_query = sq_query search_request,
                       sr_summary = [], sr_search_results = None, sr_sources_count = 0,
                       sr_error = error result\<rparr>, st1)))"

definition search_and_summarize ::
  "env \<Rightarrow> app_state \<Rightarrow> SearchRequest \<Rightarrow> (exn + SearchResponse) \<times> app_state" where
  "search_and_summarize e st search_request =
     reraise_http
       (\<lambda>m. \<lparr>sr_success = False, sr_query = sq_query search_request, sr_summary = [],
             sr_search_results = None, sr_sources_count = 0, sr_error = Some m\<rparr>)
       (search_and_summarize_try e st search_request)"

definition get_agent_capabilities_try ::
  "env \<Rightarrow> app_state \<Rightarrow> (exn + CapabilitiesResponse) \<times> app_state" where
  "get_agent_capabilities_try e st =
     (case get_or_create_agent st ''search'' of
        (Inl x, st1) \<Rightarrow> (Inl x, st1)
      | (Inr search_agent, st1) \<Rightarrow>
          (case get_or_create_agent st1 ''chat'' of
             (Inl x, st2) \<Rightarrow> (Inl x, st2)
           | (Inr chat_agent, st2) \<Rightarrow>
               (Inr \<lparr>cp_success = True,
                     cp_search_agent = Some (get_capabilities e search_agent),
                     cp_chat_agent = Some (get_capabilities e chat_agent),
                     cp_error = None\<rparr>, st2)))"

definition get_agent_capabilities ::
  "env \<Rightarrow> app_state \<Rightarrow> (exn + CapabilitiesResponse) \<times> app_state" where
  "get_agent_capabilities e st =
     reraise_http
       (\<lambda>m. \<lparr>cp_success = False, cp_search_agent = None, cp_chat_agent = None,
             cp_error = Some m\<rparr>)
       (get_agent_capabilities_try e st)"

subsection \<open>Observations on the agent cache\<close>

text \<open>
  The handle the cache holds for an agent type (none while the cache itself is missing),
  and the state after a sequence of resolutions, one for each agent type of the list.
\<close>

definition cache_lookup :: "app_state \<Rightarrow> string \<Rightarrow> handle option" where
  "cache_lookup st t = (case agent_cache st of None \<Rightarrow> None | Some c \<Rightarrow> c t)"

definition resolve_all :: "app_state \<Rightarrow> string list \<Rightarrow> app_state" where
  "resolve_all st ts = foldl (\<lambda>s t. snd (get_or_create_agent s t)) st ts"

text \<open>
  Every agent type was constructed at most once, and what was constructed is still cached.
\<close>

definition cache_inv :: "app_state \<Rightarrow> bool" where
  "cache_inv st =
     (distinct (constructed st) \<and> (\<forall>t \<in> set (constructed st). cache_lookup st t \<noteq> None))"

subsection \<open>Concrete instances\<close>

text \<open>An empty store.\<close>

definition example_db :: database where
  "example_db = \<lparr>users = [], chat_messages = []\<rparr>"

text \<open>
  An environment in which the store answers every call and the agent answers every
  prompt with the same successful result.
\<close>

definition example_env :: env where
  "example_env =
     \<lparr>now = 1000, uuid4 = ''id-1'', gensalt = ''salt-1'', JWT_SECRET = ''secret'',
      store_fault = (\<lambda>k. None),
      execute = (\<lambda>h p u. Inr \<lparr>success = True, content = ''Keep going'', metadata = None,
                               error = None\<rparr>),
      get_capabilities = (\<lambda>h. [''chat'']),
      int_of_str = (\<lambda>s. None),
      int_error = (\<lambda>v. ''invalid literal for int()''),
      validation_error = ''metadata: input should be a valid dictionary''\<rparr>"

definition example_signup :: UserSignup where
  "example_signup = \<lparr>su_username = ''ada'', su_email = ''ada@example.org'', su_password = ''pw''\<rparr>"

text \<open>A store that holds the identity of \<open>ada\<close>, whose password is \<open>pw\<close>.\<close>

definition example_user :: user_doc where
  "example_user =
     \<lparr>ud_id = ''id-0'', ud_username = ''ada'', ud_email = ''ada@example.org'',
      ud_password = Bcrypt ''salt-0'' ''pw'', ud_created_at = 900\<rparr>"

definition example_db_ada :: database where
  "example_db_ada = \<lparr>users = [example_user], chat_messages = []\<rparr>"

text \<open>
  Chat histories: one in which two records of \<open>id-0\<close> carry the same timestamp, and one
  in which all timestamps differ.
\<close>

definition msg_a :: ChatMessage where
  "msg_a = \<lparr>cm_id = ''m-1'', cm_user_id = ''id-0'', cm_message = ''hello'',
            cm_response = ''Keep going'', cm_timestamp = 950\<rparr>"

definition msg_b :: ChatMessage where
  "msg_b = \<lparr>cm_id = ''m-2'', cm_user_id = ''id-0'', cm_message = ''again'',
            cm_response = ''Well done'', cm_timestamp = 950\<rparr>"

definition msg_c :: ChatMessage where
  "msg_c = \<lparr>cm_id = ''m-3'', cm_user_id = ''id-0'', cm_message = ''later'',
            cm_response = ''Onwards'', cm_timestamp = 960\<rparr>"

definition msg_other :: ChatMessage where
  "msg_other = \<lparr>cm_id = ''m-4'', cm_user_id = ''id-9'', cm_message = ''hi'',
                cm_response = ''Hello'', cm_timestamp = 955\<rparr>"

definition example_db_ties :: database where
  "example_db_ties = \<lparr>users = [example_user], chat_messages = [msg_a, msg_b]\<rparr>"

definition example_db_history :: database where
  "example_db_history = \<lparr>users = [example_user], chat_messages = [msg_a, msg_other, msg_c]\<rparr>"

text \<open>An environment whose agents report three tool runs in the metadata.\<close>

definition example_env_tools :: env where
  "example_env_tools =
     example_env\<lparr>execute := (\<lambda>h p u. Inr \<lparr>success = True, content = ''Summary'',
                     metadata = Some [(''model'', PStr ''m''), (''tool_run_count'', PInt 3)],
                     error = None\<rparr>)\<rparr>"

definition example_search :: SearchRequest where
  "example_search = \<lparr>sq_query = ''isabelle'', sq_max_results = 5\<rparr>"

text \<open>
  Environments whose agents report the count under \<open>tools_used\<close> only, report a
  count of 2.5, and report an entry that does not read as an integer.
\<close>

definition example_env_fallback :: env where
  "example_env_fallback =
     example_env\<lparr>execute := (\<lambda>h p u. Inr \<lparr>success = True, content = ''Summary'',
                     metadata = Some [(''tools_used'', PInt 4)], error = None\<rparr>)\<rparr>"

definition example_env_float :: env where
  "example_env_float =
     example_env\<lparr>execute := (\<lambda>h p u. Inr \<lparr>success = True, content = ''Summary'',
                     metadata = Some [(''tool_run_count'', PFloat (Finite (5 / 2)))],
                     error = None\<rparr>)\<rparr>"

definition example_env_unreadable :: env where
  "example_env_unreadable =
     example_env\<lparr>execute := (\<lambda>h p u. Inr \<lparr>success = True, content = ''Summary'',
                     metadata = Some [(''tool_run_count'', PStr ''abc'')], error = None\<rparr>)\<rparr>"

text \<open>
  What the search response is to be for a given entry of the metadata: the count of an
  integer, of a boolean, of a finite float cut towards zero and of a string that reads
  as an integer; 0 for \<open>None\<close>, the empty string and any other object that counts as
  false; the failure body, with 0, for an entry \<^verbatim>\<open>int()\<close> rejects.
\<close>

definition sources_count_for_entry :: "env \<Rightarrow> pyval \<Rightarrow> SearchResponse \<Rightarrow> bool" where
  "sources_count_for_entry e v b =
     (case v of
        PInt n \<Rightarrow> sr_success b \<and> sr_sources_count b = n
      | PBool t \<Rightarrow> sr_success b \<and> sr_sources_count b = (if t then 1 else 0)
      | PFloat f \<Rightarrow>
          (case f of
             Finite x \<Rightarrow> sr_success b \<and> sr_sources_count b = (if 0 \<le> x then \<lfloor>x\<rfloor> else \<lceil>x\<rceil>)
           | Infinity \<Rightarrow> \<not> sr_success b \<and> sr_sources_count b = 0
           | NegInfinity \<Rightarrow> \<not> sr_success b \<and> sr_sources_count b = 0
           | NaN \<Rightarrow> \<not> sr_success b \<and> sr_sources_count b = 0)
      | PNone \<Rightarrow> sr_success b \<and> sr_sources_count b = 0
      | PStr s \<Rightarrow>
          if s = [] then sr_success b \<and> sr_sources_count b = 0
          else (case int_of_str e s of
                  Some n \<Rightarrow> sr_success b \<and> sr_sources_count b = n
                | None \<Rightarrow> \<not> sr_success b \<and> sr_sources_count b = 0)
      | POther t \<Rightarrow>
          if t then \<not> sr_success b \<and> sr_sources_count b = 0
          else sr_success b \<and> sr_sources_count b = 0)"

text \<open>An environment in which every store call raises.\<close>

definition example_env_store_down :: env where
  "example_env_store_down = example_env\<lparr>store_fault := (\<lambda>k. Some ''store unreachable'')\<rparr>"






section \<open>Agent resolution\<close>

lemma resolve_present:
  "cache_lookup st t = Some h \<Longrightarrow> get_or_create_agent st t = (Inr h, st)"
  by (auto simp: cache_lookup_def get_or_create_agent_def get_agent_cache_def split: option.splits)

lemma resolve_keeps:
  "cache_lookup st t = Some h \<Longrightarrow> cache_lookup (snd (get_or_create_agent st t')) t = Some h"
  by (auto simp: cache_lookup_def get_or_create_agent_def get_agent_cache_def Let_def split: option.splits)

lemma resolve_all_keeps:
  "cache_lookup st t = Some h \<Longrightarrow> cache_lookup (resolve_all st ts) t = Some h"
  unfolding resolve_all_def
  by (induction ts arbitrary: st) (auto simp: resolve_keeps)

lemma resolve_chat:
  "cache_lookup st ''chat'' = None \<Longrightarrow>
   get_or_create_agent st ''chat'' =
     (Inr (ChatAgent (agent_config st) (length (constructed st))),
      st\<lparr>agent_cache := Some ((case agent_cache st of None \<Rightarrow> Map.empty | Some c \<Rightarrow> c)
            (''chat'' \<mapsto> ChatAgent (agent_config st) (length (constructed st)))),
         constructed := constructed st @ [''chat'']\<rparr>)"
  by (auto simp: cache_lookup_def get_or_create_agent_def get_agent_cache_def Let_def split: option.splits)

lemma resolve_search:
  "cache_lookup st ''search'' = None \<Longrightarrow>
   get_or_create_agent st ''search'' =
     (Inr (SearchAgent (agent_config st) (length (constructed st))),
      st\<lparr>agent_cache := Some ((case agent_cache st of None \<Rightarrow> Map.empty | Some c \<Rightarrow> c)
            (''search'' \<mapsto> SearchAgent (agent_config st) (length (constructed st)))),
         constructed := constructed st @ [''search'']\<rparr>)"
  by (auto simp: cache_lookup_def get_or_create_agent_def get_agent_cache_def Let_def split: option.splits)

lemma resolve_unknown:
  "cache_lookup st t = None \<Longrightarrow> t \<noteq> ''chat'' \<Longrightarrow> t \<noteq> ''search'' \<Longrightarrow>
   fst (get_or_create_agent st t) = Inl (HTTPException 400 (unknown_agent_type t))"
  by (auto simp: cache_lookup_def get_or_create_agent_def get_agent_cache_def Let_def split: option.splits)

lemma resolve_chat_ok: "\<exists>h. fst (get_or_create_agent st ''chat'') = Inr h"
  by (cases "cache_lookup st ''chat''") (simp_all add: resolve_chat resolve_present)

lemma resolve_search_ok: "\<exists>h. fst (get_or_create_agent st ''search'') = Inr h"
  by (cases "cache_lookup st ''search''") (simp_all add: resolve_search resolve_present)

lemma resolve_result:
  "fst (get_or_create_agent st t) = Inl x \<Longrightarrow> x = HTTPException 400 (unknown_agent_type t) \<and> t \<noteq> ''chat'' \<and> t \<noteq> ''search''"
  by (auto simp: get_or_create_agent_def get_agent_cache_def Let_def split: option.splits if_splits)

section \<open>Exceptions that leave a handler\<close>

lemma reraise_http_Inl:
  "fst (reraise_http f res) = Inl x \<Longrightarrow> fst res = Inl x \<and> (\<exists>c d. x = HTTPException c d)"
  by (auto simp: reraise_http_def split: prod.splits sum.splits exn.splits)



lemma dependency_Inl:
  "current_user_dependency e cred = Inl x \<Longrightarrow>
   x = HTTPException 403 ''Not authenticated'' \<or> x = HTTPException 401 ''Token expired''
   \<or> x = HTTPException 401 ''Invalid token''"
  by (auto simp: current_user_dependency_def security_def get_current_user_def
      split: option.splits sum.splits jwt_error.splits)

lemma motivational_chat_try_Inl:
  "fst (motivational_chat_try e st cu m) = Inl (HTTPException c d) \<Longrightarrow>
   c = 503 \<and> d = ''Database not ready''"
  using resolve_result [of st "''chat''"]
  by (auto simp: motivational_chat_try_def ensure_db_def insert_one_def Let_def
      split: option.splits sum.splits prod.splits if_splits)

lemma get_chat_history_try_Inl:
  "fst (get_chat_history_try e st cu) = Inl (HTTPException c d) \<Longrightarrow>
   c = 503 \<and> d = ''Database not ready''"
  by (auto simp: get_chat_history_try_def ensure_db_def find_sort_limit_def
      split: option.splits sum.splits prod.splits if_splits)

lemma get_daily_quote_try_Inl:
  "fst (get_daily_quote_try e st) \<noteq> Inl (HTTPException c d)"
  using resolve_result [of st "''chat''"]
  by (auto simp: get_daily_quote_try_def Let_def
      split: option.splits sum.splits prod.splits if_splits)

lemma py_int_not_http: "py_int e v \<noteq> Inl (HTTPException c d)"
  by (induction e v rule: py_int.induct) (auto split: option.splits)

lemma search_and_summarize_try_Inl:
  "fst (search_and_summarize_try e st q) \<noteq> Inl (HTTPException c d)"
  using resolve_result [of st "''search''"] py_int_not_http [of e]
  by (auto simp: search_and_summarize_try_def Let_def
      split: option.splits sum.splits prod.splits if_splits)

lemma get_agent_capabilities_try_Inr:
  "\<exists>r. fst (get_agent_capabilities_try e st) = Inr r"
proof -
  obtain h1 where h1: "fst (get_or_create_agent st ''search'') = Inr h1"
    using resolve_search_ok by blast
  obtain h2 where h2: "fst (get_or_create_agent (snd (get_or_create_agent st ''search'')) ''chat'') = Inr h2"
    using resolve_chat_ok by blast
  show ?thesis using h1 h2
    by (auto simp: get_agent_capabilities_try_def split: prod.splits sum.splits)
qed


text \<open>
  Claim C10. The operations whose agent type is a literal of the code (companion chat,
  daily quote, search, capabilities) resolve \<open>''chat''\<close> or \<open>''search''\<close>: in every
  application state the resolution of either returns a handle, and none of these
  operations ends in the 400 failure of an unknown agent type.
\<close>

theorem fixed_agent_types_resolve:
  "(\<exists>h. fst (get_or_create_agent st ''chat'') = Inr h)
   \<and> (\<exists>h. fst (get_or_create_agent st ''search'') = Inr h)
   \<and> fst (motivational_chat e st cred m) \<noteq> Inl (HTTPException 400 d)
   \<and> fst (get_daily_quote e st cred) \<noteq> Inl (HTTPException 400 d)
   \<and> fst (search_and_summarize e st q) \<noteq> Inl (HTTPException 400 d)
   \<and> fst (get_agent_capabilities e st) \<noteq> Inl (HTTPException 400 d)"
proof -
  have mc: "fst (motivational_chat e st cred m) \<noteq> Inl (HTTPException 400 d)"
  proof (cases "current_user_dependency e cred")
    case (Inl x)
    then show ?thesis using dependency_Inl [OF Inl]
      by (auto simp: motivational_chat_def)
  next
    case (Inr cu)
    then show ?thesis
      using reraise_http_Inl [of _ "motivational_chat_try e st cu m" "HTTPException 400 d"]
        motivational_chat_try_Inl [of e st cu m 400 d]
      by (auto simp: motivational_chat_def)
  qed
  have dq: "fst (get_daily_quote e st cred) \<noteq> Inl (HTTPException 400 d)"
  proof (cases "current_user_dependency e cred")
    case (Inl x)
    then show ?thesis using dependency_Inl [OF Inl]
      by (auto simp: get_daily_quote_def)
  next
    case (Inr cu)
    then show ?thesis
      using reraise_http_Inl [of _ "get_daily_quote_try e st" "HTTPException 400 d"]
        get_daily_quote_try_Inl [of e st 400 d]
      by (auto simp: get_daily_quote_def)
  qed
  have se: "fst (search_and_summarize e st q) \<noteq> Inl (HTTPException 400 d)"
    using reraise_http_Inl [of _ "search_and_summarize_try e st q" "HTTPException 400 d"]
      search_and_summarize_try_Inl [of e st q 400 d]
    by (auto simp: search_and_summarize_def)
  have ca: "fst (get_agent_capabilities e st) \<noteq> Inl (HTTPException 400 d)"
    using reraise_http_Inl [of _ "get_agent_capabilities_try e st" "HTTPException 400 d"]
      get_agent_capabilities_try_Inr [of e st]
    by (auto simp: get_agent_capabilities_def)
  show ?thesis using resolve_chat_ok resolve_search_ok mc dq se ca by blast
qed

section \<open>The agent cache holds one handle for an agent type\<close>

lemma resolve_constructed:
  "constructed (snd (get_or_create_agent st t)) =
     (if cache_lookup st t = None \<and> (t = ''chat'' \<or> t = ''search'') then constructed st @ [t]
      else constructed st)"
  by (auto simp: cache_lookup_def get_or_create_agent_def get_agent_cache_def Let_def
      split: option.splits)

lemma resolve_lookup_new:
  "cache_lookup st t = None \<Longrightarrow> t = ''chat'' \<or> t = ''search'' \<Longrightarrow>
   cache_lookup (snd (get_or_create_agent st t)) t = Some (projr (fst (get_or_create_agent st t)))"
  by (auto simp: cache_lookup_def get_or_create_agent_def get_agent_cache_def Let_def
      split: option.splits)

lemma resolve_keeps_some:
  "cache_lookup st t \<noteq> None \<Longrightarrow> cache_lookup (snd (get_or_create_agent st t')) t \<noteq> None"
  using resolve_keeps [of st t _ t'] by (cases "cache_lookup st t") auto

lemma cache_inv_step:
  assumes "cache_inv st"
  shows "cache_inv (snd (get_or_create_agent st t))"
proof -
  let ?st = "snd (get_or_create_agent st t)"
  have old: "cache_lookup ?st u \<noteq> None" if "u \<in> set (constructed st)" for u
    using assms that by (simp add: cache_inv_def resolve_keeps_some)
  show ?thesis
  proof (cases "cache_lookup st t = None \<and> (t = ''chat'' \<or> t = ''search'')")
    case True
    then have new: "cache_lookup ?st t \<noteq> None"
      using resolve_lookup_new [of st t] by simp
    have fresh: "t \<notin> set (constructed st)"
      using assms True by (auto simp: cache_inv_def)
    have log: "constructed ?st = constructed st @ [t]"
      using True by (simp add: resolve_constructed)
    show ?thesis
      unfolding cache_inv_def log using assms fresh new old by (auto simp: cache_inv_def)
  next
    case False
    then have log: "constructed ?st = constructed st"
      by (simp add: resolve_constructed)
    show ?thesis
      unfolding cache_inv_def log using assms old by (auto simp: cache_inv_def)
  qed
qed

lemma cache_inv_resolve_all: "cache_inv st \<Longrightarrow> cache_inv (resolve_all st ts)"
  unfolding resolve_all_def
  by (induction ts arbitrary: st) (auto simp: cache_inv_step)

lemma cache_inv_lifespan: "cache_inv (lifespan d)"
  by (simp add: cache_inv_def lifespan_def)

text \<open>
  Claim C3. The cache holds at most one handle for an agent type. Resolving a type the
  cache holds returns that handle and leaves the application state as it was, so nothing
  is constructed. Resolving \<open>''chat''\<close> or \<open>''search''\<close> while the cache does not hold it
  makes one constructor call, stores the new handle and returns it, and every later
  resolution of that type, after any other resolutions, returns the same handle. From
  the state the lifespan hook sets up, no sequence of resolutions constructs an agent
  type twice.
\<close>

theorem agent_cache_one_handle_per_type:
  "(cache_lookup st t = Some h \<longrightarrow> get_or_create_agent st t = (Inr h, st))
   \<and> (cache_lookup st t = None \<longrightarrow> t = ''chat'' \<or> t = ''search'' \<longrightarrow>
        (\<exists>h'. fst (get_or_create_agent st t) = Inr h'
           \<and> cache_lookup (snd (get_or_create_agent st t)) t = Some h'
           \<and> constructed (snd (get_or_create_agent st t)) = constructed st @ [t]
           \<and> (\<forall>ts. get_or_create_agent (resolve_all (snd (get_or_create_agent st t)) ts) t
                  = (Inr h', resolve_all (snd (get_or_create_agent st t)) ts))))
   \<and> distinct (constructed (resolve_all (lifespan d) ts0))"
proof (intro conjI impI)
  assume "cache_lookup st t = Some h"
  then show "get_or_create_agent st t = (Inr h, st)" by (rule resolve_present)
next
  assume absent: "cache_lookup st t = None" and known: "t = ''chat'' \<or> t = ''search''"
  let ?st = "snd (get_or_create_agent st t)"
  obtain h' where h': "fst (get_or_create_agent st t) = Inr h'"
    using known resolve_chat_ok resolve_search_ok by blast
  have stored: "cache_lookup ?st t = Some h'"
    using resolve_lookup_new [OF absent known] h' by simp
  have log: "constructed ?st = constructed st @ [t]"
    using absent known by (simp add: resolve_constructed)
  have later: "get_or_create_agent (resolve_all ?st ts) t = (Inr h', resolve_all ?st ts)" for ts
    using resolve_all_keeps [OF stored] by (rule resolve_present)
  show "\<exists>h'. fst (get_or_create_agent st t) = Inr h'
           \<and> cache_lookup ?st t = Some h'
           \<and> constructed ?st = constructed st @ [t]
           \<and> (\<forall>ts. get_or_create_agent (resolve_all ?st ts) t = (Inr h', resolve_all ?st ts))"
    using h' stored log later by blast
next
  show "distinct (constructed (resolve_all (lifespan d) ts0))"
    using cache_inv_resolve_all [OF cache_inv_lifespan] by (simp add: cache_inv_def)
qed

lemma example_first_chat:
  "get_or_create_agent (lifespan example_db) ''chat'' =
     (Inr (ChatAgent AgentConfig 0),
      (lifespan example_db)\<lparr>agent_cache := Some [''chat'' \<mapsto> ChatAgent AgentConfig 0],
                             constructed := [''chat'']\<rparr>)"
  by (simp add: resolve_chat cache_lookup_def lifespan_def)

theorem agent_cache_one_handle_per_type_witness:
  "cache_lookup (lifespan example_db) ''chat'' = None
   \<and> fst (get_or_create_agent (lifespan example_db) ''chat'') = Inr (ChatAgent AgentConfig 0)
   \<and> cache_lookup (snd (get_or_create_agent (lifespan example_db) ''chat'')) ''chat''
        = Some (ChatAgent AgentConfig 0)
   \<and> get_or_create_agent (snd (get_or_create_agent (lifespan example_db) ''chat'')) ''chat''
        = (Inr (ChatAgent AgentConfig 0), snd (get_or_create_agent (lifespan example_db) ''chat''))
   \<and> get_or_create_agent
        (resolve_all (snd (get_or_create_agent (lifespan example_db) ''chat'')) [''search'', ''chat'']) ''chat''
        = (Inr (ChatAgent AgentConfig 0),
           resolve_all (snd (get_or_create_agent (lifespan example_db) ''chat'')) [''search'', ''chat''])"
proof -
  let ?st0 = "lifespan example_db"
  let ?st1 = "snd (get_or_create_agent ?st0 ''chat'')"
  have absent: "cache_lookup ?st0 ''chat'' = None"
    by (simp add: cache_lookup_def lifespan_def)
  have known: "''chat'' = ''chat'' \<or> ''chat'' = ''search''" by simp
  have first: "fst (get_or_create_agent ?st0 ''chat'') = Inr (ChatAgent AgentConfig 0)"
    by (simp add: example_first_chat)
  have present: "cache_lookup ?st1 ''chat'' = Some (ChatAgent AgentConfig 0)"
    by (simp add: example_first_chat cache_lookup_def)
  from agent_cache_one_handle_per_type [of ?st1 "''chat''" "ChatAgent AgentConfig 0"] present
  have again: "get_or_create_agent ?st1 ''chat'' = (Inr (ChatAgent AgentConfig 0), ?st1)"
    by blast
  from agent_cache_one_handle_per_type [of ?st0 "''chat''"] absent known first
  have later: "get_or_create_agent (resolve_all ?st1 [''search'', ''chat'']) ''chat''
        = (Inr (ChatAgent AgentConfig 0), resolve_all ?st1 [''search'', ''chat''])"
    by auto
  show ?thesis using absent first present again later by blast
qed

section \<open>Tokens\<close>

lemma create_token_eq:
  "create_token e uid un =
     Jws (JWT_SECRET e) JWT_ALGORITHM \<lparr>p_user_id = uid, p_username = un, p_exp = now e + 604800\<rparr>"
  by (simp add: create_token_def jwt_encode_def)

lemma verify_signed:
  "get_current_user e (Jws (JWT_SECRET e) JWT_ALGORITHM p) =
     (if p_exp p \<le> now e then Inl (HTTPException 401 ''Token expired'') else Inr p)"
  by (simp add: get_current_user_def)

lemma verify_badly_signed:
  "k \<noteq> JWT_SECRET e \<or> a \<noteq> JWT_ALGORITHM \<Longrightarrow>
   get_current_user e (Jws k a p) = Inl (HTTPException 401 ''Invalid token'')"
  by (auto simp: get_current_user_def)

lemma verify_malformed:
  "get_current_user e (Malformed s) = Inl (HTTPException 401 ''Invalid token'')"
  by (simp add: get_current_user_def)

text \<open>
  Claim C6. A token carries as its expiry the instant of issuance plus 604800 seconds
  (7 days). Verifying an issued token at or after that instant, and more generally
  verifying any correctly signed token at or after its encoded expiry, fails with
  \<open>Token expired\<close>; a malformed token and a token signed with another key or algorithm
  fail with \<open>Invalid token\<close>, which is a different failure.
\<close>

theorem token_expires_after_seven_days:
  "create_token e uid un =
     Jws (JWT_SECRET e) JWT_ALGORITHM \<lparr>p_user_id = uid, p_username = un, p_exp = now e + 604800\<rparr>
   \<and> (JWT_SECRET e' = JWT_SECRET e \<longrightarrow> now e + 604800 \<le> now e' \<longrightarrow>
        get_current_user e' (create_token e uid un) = Inl (HTTPException 401 ''Token expired''))
   \<and> (p_exp p \<le> now e' \<longrightarrow>
        get_current_user e' (Jws (JWT_SECRET e') JWT_ALGORITHM p)
          = Inl (HTTPException 401 ''Token expired''))
   \<and> get_current_user e' (Malformed s) = Inl (HTTPException 401 ''Invalid token'')
   \<and> (k \<noteq> JWT_SECRET e' \<or> a \<noteq> JWT_ALGORITHM \<longrightarrow>
        get_current_user e' (Jws k a p) = Inl (HTTPException 401 ''Invalid token''))
   \<and> get_current_user e' (Malformed s) \<noteq> Inl (HTTPException 401 ''Token expired'')"
proof -
  have issued: "get_current_user e' (create_token e uid un) = Inl (HTTPException 401 ''Token expired'')"
    if "JWT_SECRET e' = JWT_SECRET e" "now e + 604800 \<le> now e'"
    using that verify_signed [of e' "\<lparr>p_user_id = uid, p_username = un, p_exp = now e + 604800\<rparr>"]
    by (simp add: create_token_eq)
  have signed: "get_current_user e' (Jws (JWT_SECRET e') JWT_ALGORITHM p)
      = Inl (HTTPException 401 ''Token expired'')" if "p_exp p \<le> now e'"
    using that by (simp add: verify_signed)
  show ?thesis
    using issued signed verify_badly_signed [of k e' a p]
    by (simp add: create_token_eq [of e uid un] verify_malformed)
qed

theorem token_expires_after_seven_days_witness:
  "get_current_user (example_env\<lparr>now := 605800\<rparr>) (create_token example_env ''id-1'' ''ada'')
     = Inl (HTTPException 401 ''Token expired'')
   \<and> get_current_user example_env
        (Jws ''secret'' ''HS256'' \<lparr>p_user_id = ''id-1'', p_username = ''ada'', p_exp = 1000\<rparr>)
     = Inl (HTTPException 401 ''Token expired'')
   \<and> get_current_user example_env
        (Jws ''guess'' ''HS256'' \<lparr>p_user_id = ''id-1'', p_username = ''ada'', p_exp = 2000\<rparr>)
     = Inl (HTTPException 401 ''Invalid token'')"
proof -
  have secret: "JWT_SECRET (example_env\<lparr>now := 605800\<rparr>) = JWT_SECRET example_env"
    by simp
  have late: "now example_env + 604800 \<le> now (example_env\<lparr>now := 605800\<rparr>)"
    by (simp add: example_env_def)
  have past: "p_exp \<lparr>p_user_id = ''id-1'', p_username = ''ada'', p_exp = 1000\<rparr> \<le> now example_env"
    by (simp add: example_env_def)
  have other: "''guess'' \<noteq> JWT_SECRET example_env \<or> ''HS256'' \<noteq> JWT_ALGORITHM"
    by (simp add: example_env_def)
  have s: "JWT_SECRET example_env = ''secret''" "JWT_ALGORITHM = ''HS256''"
    by (simp_all add: example_env_def JWT_ALGORITHM_def)
  from token_expires_after_seven_days
    [of example_env "''id-1''" "''ada''" "example_env\<lparr>now := 605800\<rparr>"
      "\<lparr>p_user_id = ''id-1'', p_username = ''ada'', p_exp = 1000\<rparr>" "''junk''" "''guess''" "''HS256''"]
    secret late
  have a: "get_current_user (example_env\<lparr>now := 605800\<rparr>) (create_token example_env ''id-1'' ''ada'')
     = Inl (HTTPException 401 ''Token expired'')"
    by blast
  from token_expires_after_seven_days
    [of example_env "''id-1''" "''ada''" example_env
      "\<lparr>p_user_id = ''id-1'', p_username = ''ada'', p_exp = 1000\<rparr>" "''junk''" "''guess''" "''HS256''"]
    past s
  have b: "get_current_user example_env
        (Jws ''secret'' ''HS256'' \<lparr>p_user_id = ''id-1'', p_username = ''ada'', p_exp = 1000\<rparr>)
     = Inl (HTTPException 401 ''Token expired'')"
    by simp
  from token_expires_after_seven_days
    [of example_env "''id-1''" "''ada''" example_env
      "\<lparr>p_user_id = ''id-1'', p_username = ''ada'', p_exp = 2000\<rparr>" "''junk''" "''guess''" "''HS256''"]
    other
  have c: "get_current_user example_env
        (Jws ''guess'' ''HS256'' \<lparr>p_user_id = ''id-1'', p_username = ''ada'', p_exp = 2000\<rparr>)
     = Inl (HTTPException 401 ''Invalid token'')"
    by blast
  show ?thesis using a b c by blast
qed

section \<open>Signup and login\<close>

lemma signup_success:
  assumes "fst (signup e st user) = Inr r" and "ar_success r"
  shows "\<exists>d. db st = Some d
     \<and> List.find (\<lambda>u. ud_username u = su_username user) (users d) = None
     \<and> List.find (\<lambda>u. ud_email u = su_email user) (users d) = None
     \<and> db (snd (signup e st user)) =
         Some (d\<lparr>users := users d @
            [\<lparr>ud_id = uuid4 e, ud_username = su_username user, ud_email = su_email user,
              ud_password = hash_password e (su_password user), ud_created_at = now e\<rparr>]\<rparr>)
     \<and> r = \<lparr>ar_success = True, ar_token = Some (create_token e (uuid4 e) (su_username user)),
            ar_username = Some (su_username user),
            ar_message = Some ''Account created successfully''\<rparr>"
  using assms
  by (auto simp: signup_def catch_all_def signup_try_def ensure_db_def find_one_def
      insert_one_def Let_def split: option.splits sum.splits prod.splits if_splits)

text \<open>
  Claim C5. After a successful signup the response carries a token which, verified
  against the same signing secret at any instant before its expiry (so also at the
  instant of the signup), is accepted and yields the identifier and the username of the
  identity record the signup stored.
\<close>

theorem signup_token_verifies:
  assumes "fst (signup e st user) = Inr r" and "ar_success r"
  shows "\<exists>tok d' u. ar_token r = Some tok
     \<and> db (snd (signup e st user)) = Some d' \<and> u \<in> set (users d')
     \<and> ud_id u = uuid4 e \<and> ud_username u = su_username user
     \<and> get_current_user e tok =
         Inr \<lparr>p_user_id = ud_id u, p_username = ud_username u, p_exp = now e + 604800\<rparr>
     \<and> (\<forall>e'. JWT_SECRET e' = JWT_SECRET e \<longrightarrow> now e' < now e + 604800 \<longrightarrow>
           get_current_user e' tok =
             Inr \<lparr>p_user_id = ud_id u, p_username = ud_username u, p_exp = now e + 604800\<rparr>)"
proof -
  from signup_success [OF assms] obtain d where
    d: "db (snd (signup e st user)) =
         Some (d\<lparr>users := users d @
            [\<lparr>ud_id = uuid4 e, ud_username = su_username user, ud_email = su_email user,
              ud_password = hash_password e (su_password user), ud_created_at = now e\<rparr>]\<rparr>)"
    and r: "ar_token r = Some (create_token e (uuid4 e) (su_username user))"
    by auto
  have v: "get_current_user e' (create_token e (uuid4 e) (su_username user)) =
      Inr \<lparr>p_user_id = uuid4 e, p_username = su_username user, p_exp = now e + 604800\<rparr>"
    if "JWT_SECRET e' = JWT_SECRET e" "now e' < now e + 604800" for e'
    using that verify_signed [of e'] by (simp add: create_token_eq)
  show ?thesis
    using d r v v [of e] by (intro exI conjI) (auto simp del: One_nat_def)
qed

lemma example_signup_result:
  "fst (signup example_env (lifespan example_db) example_signup) =
     Inr \<lparr>ar_success = True, ar_token = Some (create_token example_env ''id-1'' ''ada''),
          ar_username = Some ''ada'', ar_message = Some ''Account created successfully''\<rparr>"
  by (simp add: signup_def catch_all_def signup_try_def ensure_db_def find_one_def
      insert_one_def Let_def lifespan_def example_db_def example_env_def example_signup_def)

theorem signup_token_verifies_witness:
  "\<exists>tok. ar_token \<lparr>ar_success = True, ar_token = Some (create_token example_env ''id-1'' ''ada''),
          ar_username = Some ''ada'', ar_message = Some ''Account created successfully''\<rparr> = Some tok
     \<and> get_current_user example_env tok =
         Inr \<lparr>p_user_id = ''id-1'', p_username = ''ada'', p_exp = 605800\<rparr>"
proof -
  have ok: "ar_success \<lparr>ar_success = True, ar_token = Some (create_token example_env ''id-1'' ''ada''),
          ar_username = Some ''ada'', ar_message = Some ''Account created successfully''\<rparr>"
    by simp
  from signup_token_verifies [OF example_signup_result ok]
  show ?thesis
    by (auto simp: example_env_def example_signup_def)
qed

lemma find_in_set:
  "x \<in> set xs \<Longrightarrow> P x \<Longrightarrow> \<exists>y. List.find P xs = Some y \<and> y \<in> set xs \<and> P y"
  by (induction xs) auto

text \<open>
  Claim C7. A signup whose username is the username of a stored identity returns a
  response with \<open>success = False\<close> and no token, and leaves the application state, so
  also the user collection, as it was; the message is \<open>Username already exists\<close> when
  the store answers the lookup (a lookup that raises is reported with the text of its
  exception instead).
\<close>

theorem signup_username_taken:
  assumes "db st = Some d" and "u \<in> set (users d)" and "ud_username u = su_username user"
  shows "(\<exists>r. fst (signup e st user) = Inr r \<and> \<not> ar_success r \<and> ar_token r = None)
     \<and> snd (signup e st user) = st
     \<and> (store_fault e 0 = None \<longrightarrow>
          fst (signup e st user) =
            Inr \<lparr>ar_success = False, ar_token = None, ar_username = None,
                 ar_message = Some ''Username already exists''\<rparr>)"
proof -
  obtain y where y: "List.find (\<lambda>u. ud_username u = su_username user) (users d) = Some y"
    using find_in_set [OF assms(2), of "\<lambda>u. ud_username u = su_username user"] assms(3)
    by blast
  show ?thesis
  proof (cases "store_fault e 0")
    case None
    then show ?thesis using assms(1) y
      by (simp add: signup_def catch_all_def signup_try_def ensure_db_def find_one_def)
  next
    case (Some m)
    then show ?thesis using assms(1)
      by (simp add: signup_def catch_all_def signup_try_def ensure_db_def find_one_def)
  qed
qed

theorem signup_username_taken_witness:
  "fst (signup example_env (lifespan example_db_ada)
          \<lparr>su_username = ''ada'', su_email = ''other@example.org'', su_password = ''x''\<rparr>) =
     Inr \<lparr>ar_success = False, ar_token = None, ar_username = None,
          ar_message = Some ''Username already exists''\<rparr>
   \<and> snd (signup example_env (lifespan example_db_ada)
          \<lparr>su_username = ''ada'', su_email = ''other@example.org'', su_password = ''x''\<rparr>) =
     lifespan example_db_ada"
proof -
  have a: "db (lifespan example_db_ada) = Some example_db_ada"
    by (simp add: lifespan_def)
  have b: "example_user \<in> set (users example_db_ada)"
    by (simp add: example_db_ada_def)
  have c: "ud_username example_user =
      su_username \<lparr>su_username = ''ada'', su_email = ''other@example.org'', su_password = ''x''\<rparr>"
    by (simp add: example_user_def)
  have f: "store_fault example_env 0 = None"
    by (simp add: example_env_def)
  from signup_username_taken [OF a b c, of example_env] f
  show ?thesis by blast
qed

text \<open>
  Claim C8. A login fails for an unknown username and for a password that does not
  verify against the stored hash with one and the same response, \<open>success = False\<close>, no
  token, no username and the message \<open>Invalid username or password\<close>, and with the
  application state unchanged: the response does not tell the two causes apart.
\<close>

theorem login_failure_indistinguishable:
  assumes "db st = Some d" and "store_fault e 0 = None"
    and "(\<forall>u \<in> set (users d). ud_username u \<noteq> li_username user)
       \<or> (\<exists>u. List.find (\<lambda>u. ud_username u = li_username user) (users d) = Some u
              \<and> \<not> verify_password (li_password user) (ud_password u))"
  shows "login e st user =
     (Inr \<lparr>ar_success = False, ar_token = None, ar_username = None,
           ar_message = Some ''Invalid username or password''\<rparr>, st)"
  using assms(3)
proof
  assume "\<forall>u \<in> set (users d). ud_username u \<noteq> li_username user"
  then have "List.find (\<lambda>u. ud_username u = li_username user) (users d) = None"
    by (simp add: find_None_iff)
  then show ?thesis using assms(1,2)
    by (simp add: login_def catch_all_def login_try_def ensure_db_def find_one_def)
next
  assume "\<exists>u. List.find (\<lambda>u. ud_username u = li_username user) (users d) = Some u
              \<and> \<not> verify_password (li_password user) (ud_password u)"
  then show ?thesis using assms(1,2)
    by (auto simp: login_def catch_all_def login_try_def ensure_db_def find_one_def)
qed

theorem login_failure_indistinguishable_witness:
  "login example_env (lifespan example_db_ada) \<lparr>li_username = ''bob'', li_password = ''pw''\<rparr> =
     (Inr \<lparr>ar_success = False, ar_token = None, ar_username = None,
           ar_message = Some ''Invalid username or password''\<rparr>, lifespan example_db_ada)
   \<and> login example_env (lifespan example_db_ada) \<lparr>li_username = ''ada'', li_password = ''guess''\<rparr> =
     (Inr \<lparr>ar_success = False, ar_token = None, ar_username = None,
           ar_message = Some ''Invalid username or password''\<rparr>, lifespan example_db_ada)"
proof -
  have a: "db (lifespan example_db_ada) = Some example_db_ada"
    by (simp add: lifespan_def)
  have f: "store_fault example_env 0 = None"
    by (simp add: example_env_def)
  have unknown: "(\<forall>u \<in> set (users example_db_ada).
        ud_username u \<noteq> li_username \<lparr>li_username = ''bob'', li_password = ''pw''\<rparr>)
     \<or> (\<exists>u. List.find (\<lambda>u. ud_username u = li_username \<lparr>li_username = ''bob'', li_password = ''pw''\<rparr>)
              (users example_db_ada) = Some u
          \<and> \<not> verify_password (li_password \<lparr>li_username = ''bob'', li_password = ''pw''\<rparr>)
                (ud_password u))"
    by (simp add: example_db_ada_def example_user_def)
  have wrong: "(\<forall>u \<in> set (users example_db_ada).
        ud_username u \<noteq> li_username \<lparr>li_username = ''ada'', li_password = ''guess''\<rparr>)
     \<or> (\<exists>u. List.find (\<lambda>u. ud_username u = li_username \<lparr>li_username = ''ada'', li_password = ''guess''\<rparr>)
              (users example_db_ada) = Some u
          \<and> \<not> verify_password (li_password \<lparr>li_username = ''ada'', li_password = ''guess''\<rparr>)
                (ud_password u))"
    by (simp add: example_db_ada_def example_user_def verify_password_def)
  show ?thesis
    using login_failure_indistinguishable [OF a f unknown]
      login_failure_indistinguishable [OF a f wrong]
    by simp
qed

section \<open>Chat history\<close>

lemma example_token_accepted:
  "current_user_dependency example_env (Some (create_token example_env uid un)) =
     Inr \<lparr>p_user_id = uid, p_username = un, p_exp = 605800\<rparr>"
proof -
  have k: "JWT_SECRET example_env = ''secret''" and t: "now example_env = 1000"
    by (simp_all add: example_env_def)
  have "get_current_user example_env
      (Jws (JWT_SECRET example_env) JWT_ALGORITHM
         \<lparr>p_user_id = uid, p_username = un, p_exp = now example_env + 604800\<rparr>) =
    Inr \<lparr>p_user_id = uid, p_username = un, p_exp = now example_env + 604800\<rparr>"
    by (simp only: verify_signed) (simp add: t)
  then show ?thesis
    by (simp add: current_user_dependency_def security_def create_token_eq t)
qed

lemma sorted_wrt_strict:
  "sorted_wrt (\<lambda>a b. f b \<le> (f a :: int)) xs \<Longrightarrow> distinct (map f xs) \<Longrightarrow>
   sorted_wrt (\<lambda>a b. f b < f a) xs"
proof (induction xs)
  case Nil
  then show ?case by simp
next
  case (Cons a xs)
  have "f x < f a" if "x \<in> set xs" for x
  proof -
    have "f x \<le> f a" using Cons.prems(1) that by simp
    moreover have "f x \<noteq> f a" using Cons.prems(2) that by (simp add: image_iff) metis
    ultimately show ?thesis by simp
  qed
  then show ?case using Cons by simp
qed

lemma distinct_map_sort_key:
  assumes "distinct (map f xs)"
  shows "distinct (map f (sort_key k xs))"
proof -
  have "card (set (map f (sort_key k xs))) = card (set (map f xs))" by simp
  also have "\<dots> = length (map f xs)" using assms by (rule distinct_card)
  also have "\<dots> = length (map f (sort_key k xs))" by simp
  finally show ?thesis by (rule card_distinct)
qed

lemma newest_first:
  "sorted_wrt (\<lambda>a b. key b \<le> (key a :: int)) (sort_key (\<lambda>d. - key d) xs)"
proof -
  have "sorted (map (\<lambda>d. - key d) (sort_key (\<lambda>d. - key d) xs))"
    by (rule sorted_sort_key)
  then show ?thesis by (simp add: sorted_map)
qed

lemma dropped_not_newer:
  assumes "sorted_wrt (\<lambda>a b. key b \<le> (key a :: int)) ys"
    and "x \<in> set (take n ys)" and "y \<in> set (drop n ys)"
  shows "key y \<le> key x"
proof -
  have "sorted_wrt (\<lambda>a b. key b \<le> key a) (take n ys @ drop n ys)"
    using assms(1) by simp
  then show ?thesis using assms(2,3) unfolding sorted_wrt_append by blast
qed

lemma find_sort_limit_props:
  assumes "store_fault e k = None"
  shows "\<exists>ms. find_sort_limit e k q key n coll = Inr ms
     \<and> length ms \<le> n
     \<and> sorted_wrt (\<lambda>a b. key b \<le> key a) ms
     \<and> (\<forall>m \<in> set ms. q m \<and> m \<in> set coll)
     \<and> (distinct (map key (filter q coll)) \<longrightarrow> sorted_wrt (\<lambda>a b. key b < key a) ms)
     \<and> (\<forall>m \<in> set coll. q m \<longrightarrow> m \<notin> set ms \<longrightarrow> (\<forall>m' \<in> set ms. key m \<le> key m'))
     \<and> ((\<forall>m \<in> set coll. \<not> q m) \<longrightarrow> ms = [])"
proof -
  let ?ys = "sort_key (\<lambda>d. - key d) (filter q coll)"
  let ?ms = "take n ?ys"
  have res: "find_sort_limit e k q key n coll = Inr ?ms"
    using assms by (simp add: find_sort_limit_def)
  have len: "length ?ms \<le> n" by simp
  have srt: "sorted_wrt (\<lambda>a b. key b \<le> key a) ?ms"
    using newest_first [of key "filter q coll"] by (rule sorted_wrt_take)
  have mem: "\<forall>m \<in> set ?ms. q m \<and> m \<in> set coll"
  proof
    fix m assume "m \<in> set ?ms"
    then have "m \<in> set ?ys" by (rule in_set_takeD)
    then show "q m \<and> m \<in> set coll" by simp
  qed
  have strict: "sorted_wrt (\<lambda>a b. key b < key a) ?ms"
    if "distinct (map key (filter q coll))"
  proof -
    have "distinct (map key ?ys)" using that by (rule distinct_map_sort_key)
    then have "sorted_wrt (\<lambda>a b. key b < key a) ?ys"
      using newest_first [of key "filter q coll"] sorted_wrt_strict by blast
    then show ?thesis by (rule sorted_wrt_take)
  qed
  have rest: "\<forall>m \<in> set coll. q m \<longrightarrow> m \<notin> set ?ms \<longrightarrow> (\<forall>m' \<in> set ?ms. key m \<le> key m')"
  proof (intro ballI impI)
    fix m m' assume m: "m \<in> set coll" "q m" "m \<notin> set ?ms" and m': "m' \<in> set ?ms"
    have "m \<in> set (take n ?ys @ drop n ?ys)" using m(1,2) by simp
    then have "m \<in> set (drop n ?ys)" using m(3) by (simp only: set_append) blast
    then show "key m \<le> key m'"
      using dropped_not_newer [OF newest_first m'] by blast
  qed
  have none: "?ms = []" if "\<forall>m \<in> set coll. \<not> q m"
  proof -
    have "filter q coll = []" using that by (simp add: filter_empty_conv)
    then show ?thesis by simp
  qed
  show ?thesis using res len srt mem strict rest none by blast
qed

text \<open>
  Claim C9 as stated fails: two records of one identity with the same timestamp are
  both returned, so the timestamps of the answer do not strictly decrease.
\<close>

theorem chat_history_ties_counterexample:
  "fst (get_chat_history example_env (lifespan example_db_ties)
          (Some (create_token example_env ''id-0'' ''ada''))) =
     Inr \<lparr>hr_success = True, hr_messages = Some [msg_a, msg_b], hr_error = None\<rparr>
   \<and> \<not> sorted_wrt (\<lambda>a b. cm_timestamp b < cm_timestamp a) [msg_a, msg_b]"
proof -
  have "find_sort_limit example_env 0 (\<lambda>m. cm_user_id m = ''id-0'') cm_timestamp 50
          [msg_a, msg_b] = Inr [msg_a, msg_b]"
    by (simp add: find_sort_limit_def example_env_def msg_a_def msg_b_def)
  then show ?thesis
    by (simp only: get_chat_history_def example_token_accepted)
       (simp add: reraise_http_def get_chat_history_try_def ensure_db_def lifespan_def
          example_db_ties_def msg_a_def msg_b_def)
qed

text \<open>
  Claim C9, amended. For an authenticated identity, with the store ready and answering,
  the history operation leaves the state unchanged and returns \<open>success = True\<close> with at
  most 50 records, all of them records of the store owned by that identity, ordered
  newest first: no record is followed by a newer one. The timestamps strictly decrease
  when the records of the identity have pairwise different timestamps. A record of the
  identity that is left out is not newer than any returned one, and an identity without
  history gets the empty sequence.
\<close>

theorem chat_history_newest_first:
  assumes "current_user_dependency e cred = Inr cu" and "db st = Some d"
    and "store_fault e 0 = None"
  shows "\<exists>ms. get_chat_history e st cred =
        (Inr \<lparr>hr_success = True, hr_messages = Some ms, hr_error = None\<rparr>, st)
     \<and> length ms \<le> 50
     \<and> sorted_wrt (\<lambda>a b. cm_timestamp b \<le> cm_timestamp a) ms
     \<and> (\<forall>m \<in> set ms. cm_user_id m = p_user_id cu \<and> m \<in> set (chat_messages d))
     \<and> (distinct (map cm_timestamp
            (filter (\<lambda>m. cm_user_id m = p_user_id cu) (chat_messages d))) \<longrightarrow>
          sorted_wrt (\<lambda>a b. cm_timestamp b < cm_timestamp a) ms)
     \<and> (\<forall>m \<in> set (chat_messages d). cm_user_id m = p_user_id cu \<longrightarrow> m \<notin> set ms \<longrightarrow>
          (\<forall>m' \<in> set ms. cm_timestamp m \<le> cm_timestamp m'))
     \<and> ((\<forall>m \<in> set (chat_messages d). cm_user_id m \<noteq> p_user_id cu) \<longrightarrow> ms = [])"
proof -
  from find_sort_limit_props [OF assms(3), of "\<lambda>m. cm_user_id m = p_user_id cu" cm_timestamp 50
      "chat_messages d"]
  obtain ms where ms:
    "find_sort_limit e 0 (\<lambda>m. cm_user_id m = p_user_id cu) cm_timestamp 50 (chat_messages d) = Inr ms"
    "length ms \<le> 50"
    "sorted_wrt (\<lambda>a b. cm_timestamp b \<le> cm_timestamp a) ms"
    "\<forall>m \<in> set ms. cm_user_id m = p_user_id cu \<and> m \<in> set (chat_messages d)"
    "distinct (map cm_timestamp (filter (\<lambda>m. cm_user_id m = p_user_id cu) (chat_messages d))) \<longrightarrow>
       sorted_wrt (\<lambda>a b. cm_timestamp b < cm_timestamp a) ms"
    "\<forall>m \<in> set (chat_messages d). cm_user_id m = p_user_id cu \<longrightarrow> m \<notin> set ms \<longrightarrow>
       (\<forall>m' \<in> set ms. cm_timestamp m \<le> cm_timestamp m')"
    "(\<forall>m \<in> set (chat_messages d). \<not> cm_user_id m = p_user_id cu) \<longrightarrow> ms = []"
    by blast
  have "get_chat_history e st cred =
        (Inr \<lparr>hr_success = True, hr_messages = Some ms, hr_error = None\<rparr>, st)"
    using assms(1,2) ms(1)
    by (simp add: get_chat_history_def reraise_http_def get_chat_history_try_def ensure_db_def)
  then show ?thesis using ms(2-7) by blast
qed

theorem chat_history_newest_first_witness:
  "get_chat_history example_env (lifespan example_db_history)
      (Some (create_token example_env ''id-0'' ''ada'')) =
     (Inr \<lparr>hr_success = True, hr_messages = Some [msg_c, msg_a], hr_error = None\<rparr>,
      lifespan example_db_history)
   \<and> get_chat_history example_env (lifespan example_db_history)
      (Some (create_token example_env ''id-5'' ''eve'')) =
     (Inr \<lparr>hr_success = True, hr_messages = Some [], hr_error = None\<rparr>,
      lifespan example_db_history)"
proof -
  have a: "db (lifespan example_db_history) = Some example_db_history"
    by (simp add: lifespan_def)
  have f: "store_fault example_env 0 = None"
    by (simp add: example_env_def)
  have d: "distinct (map cm_timestamp
            (filter (\<lambda>m. cm_user_id m = p_user_id \<lparr>p_user_id = ''id-0'', p_username = ''ada'', p_exp = 605800\<rparr>)
               (chat_messages example_db_history)))"
    by (simp add: example_db_history_def msg_a_def msg_c_def msg_other_def)
  have n: "\<forall>m \<in> set (chat_messages example_db_history).
      cm_user_id m \<noteq> p_user_id \<lparr>p_user_id = ''id-5'', p_username = ''eve'', p_exp = 605800\<rparr>"
    by (simp add: example_db_history_def msg_a_def msg_c_def msg_other_def)
  from chat_history_newest_first [OF example_token_accepted a f, of "''id-0''" "''ada''"] d
  obtain ms where ms: "get_chat_history example_env (lifespan example_db_history)
      (Some (create_token example_env ''id-0'' ''ada'')) =
        (Inr \<lparr>hr_success = True, hr_messages = Some ms, hr_error = None\<rparr>, lifespan example_db_history)"
    "sorted_wrt (\<lambda>a b. cm_timestamp b < cm_timestamp a) ms"
    by blast
  have "get_chat_history example_env (lifespan example_db_history)
      (Some (create_token example_env ''id-0'' ''ada'')) =
     (Inr \<lparr>hr_success = True, hr_messages = Some [msg_c, msg_a], hr_error = None\<rparr>,
      lifespan example_db_history)"
    by (simp only: get_chat_history_def example_token_accepted)
       (simp add: reraise_http_def get_chat_history_try_def ensure_db_def lifespan_def
          example_db_history_def find_sort_limit_def example_env_def msg_a_def msg_c_def
          msg_other_def)
  moreover
  from chat_history_newest_first [OF example_token_accepted a f, of "''id-5''" "''eve''"] n
  have "get_chat_history example_env (lifespan example_db_history)
      (Some (create_token example_env ''id-5'' ''eve'')) =
     (Inr \<lparr>hr_success = True, hr_messages = Some [], hr_error = None\<rparr>,
      lifespan example_db_history)"
    by auto
  ultimately show ?thesis using ms by blast
qed

section \<open>Search\<close>

lemma search_agent_success:
  assumes "get_or_create_agent st ''search'' = (Inr ag, st1)"
    and "execute e ag (search_prompt (sq_query q)) (Some True) = Inr r" and "success r"
  shows "search_and_summarize e st q =
     (let md = (case metadata r of None \<Rightarrow> [] | Some m \<Rightarrow> m) in
      case py_int e (py_or (tool_count_entry md) (PInt 0)) of
        Inl x \<Rightarrow>
          (Inr \<lparr>sr_success = False, sr_query = sq_query q, sr_summary = [],
                sr_search_results = None, sr_sources_count = 0,
                sr_error = Some (str_exn x)\<rparr>, st1)
      | Inr n \<Rightarrow>
          (Inr \<lparr>sr_success = True, sr_query = sq_query q, sr_summary = content r,
                sr_search_results = Some md, sr_sources_count = n, sr_error = None\<rparr>, st1))"
  using assms py_int_not_http [of e]
  by (auto simp: search_and_summarize_def search_and_summarize_try_def reraise_http_def Let_def
      split: sum.splits exn.splits)

lemma tool_count_entry_keys:
  "tool_count_entry md =
     (case map_of md ''tool_run_count'' of
        Some v \<Rightarrow> v
      | None \<Rightarrow> (case map_of md ''tools_used'' of Some v \<Rightarrow> v | None \<Rightarrow> PInt 0))"
  by (simp add: tool_count_entry_def dict_get_def)

lemma search_entry_table:
  assumes "get_or_create_agent st ''search'' = (Inr ag, st1)"
    and "execute e ag (search_prompt (sq_query q)) (Some True) = Inr r" and "success r"
    and "tool_count_entry (case metadata r of None \<Rightarrow> [] | Some m \<Rightarrow> m) = v"
  shows "\<exists>b. fst (search_and_summarize e st q) = Inr b
     \<and> sr_query b = sq_query q
     \<and> (sr_success b \<longrightarrow> sr_summary b = content r)
     \<and> (\<not> sr_success b \<longrightarrow> sr_summary b = [] \<and> sr_sources_count b = 0)
     \<and> sources_count_for_entry e v b"
proof -
  note eq = search_agent_success [OF assms(1-3)]
  show ?thesis
  proof (cases v)
    case PNone
    then show ?thesis using eq assms(4)
      by (simp add: Let_def py_or_def sources_count_for_entry_def)
  next
    case (PBool t)
    then show ?thesis using eq assms(4)
      by (simp add: Let_def py_or_def sources_count_for_entry_def)
  next
    case (PInt n)
    then show ?thesis using eq assms(4)
      by (simp add: Let_def py_or_def sources_count_for_entry_def)
  next
    case (PFloat f)
    then show ?thesis using eq assms(4)
      by (cases f) (simp_all add: Let_def py_or_def sources_count_for_entry_def)
  next
    case (PStr s)
    then show ?thesis using eq assms(4)
      by (simp add: Let_def py_or_def sources_count_for_entry_def split: option.splits)
  next
    case (POther t)
    then show ?thesis using eq assms(4)
      by (simp add: Let_def py_or_def sources_count_for_entry_def)
  qed
qed

lemma example_search_agent:
  "fst (get_or_create_agent (lifespan example_db) ''search'') = Inr (SearchAgent AgentConfig 0)"
  by (simp add: resolve_search cache_lookup_def lifespan_def)

lemma example_search_resolved:
  "get_or_create_agent (lifespan example_db) ''search'' =
     (Inr (SearchAgent AgentConfig 0),
      (lifespan example_db)\<lparr>agent_cache := Some [''search'' \<mapsto> SearchAgent AgentConfig 0],
                             constructed := [''search'']\<rparr>)"
  by (simp add: resolve_search cache_lookup_def lifespan_def)

text \<open>
  Claim C2 as stated fails. The agent succeeds and reports 2.5 under \<open>tool_run_count\<close>,
  a numeric entry: the response counts 2. The agent succeeds and reports \<open>abc\<close>, an
  entry that is not numeric: the search is answered with the failure body of the
  catch-all, without the summary the agent produced.
\<close>

theorem search_float_count_counterexample:
  "fst (search_and_summarize example_env_float (lifespan example_db) example_search) =
     Inr \<lparr>sr_success = True, sr_query = ''isabelle'', sr_summary = ''Summary'',
          sr_search_results = Some [(''tool_run_count'', PFloat (Finite (5 / 2)))],
          sr_sources_count = 2, sr_error = None\<rparr>
   \<and> fst (search_and_summarize example_env_unreadable (lifespan example_db) example_search) =
     Inr \<lparr>sr_success = False, sr_query = ''isabelle'', sr_summary = [],
          sr_search_results = None, sr_sources_count = 0,
          sr_error = Some ''invalid literal for int()''\<rparr>"
proof -
  have x: "execute example_env_float h p u =
      Inr \<lparr>success = True, content = ''Summary'',
           metadata = Some [(''tool_run_count'', PFloat (Finite (5 / 2)))], error = None\<rparr>"
    for h p u
    by (simp add: example_env_float_def)
  have y: "execute example_env_unreadable h p u =
      Inr \<lparr>success = True, content = ''Summary'',
           metadata = Some [(''tool_run_count'', PStr ''abc'')], error = None\<rparr>"
    for h p u
    by (simp add: example_env_unreadable_def)
  have p: "int_of_str example_env_unreadable ''abc'' = None"
    and m: "int_error example_env_unreadable (PStr ''abc'') = ''invalid literal for int()''"
    by (simp_all add: example_env_unreadable_def example_env_def)
  have a: "fst (search_and_summarize example_env_float (lifespan example_db) example_search) =
     Inr \<lparr>sr_success = True, sr_query = ''isabelle'', sr_summary = ''Summary'',
          sr_search_results = Some [(''tool_run_count'', PFloat (Finite (5 / 2)))],
          sr_sources_count = 2, sr_error = None\<rparr>"
    by (simp only: search_and_summarize_def search_and_summarize_try_def
          example_search_resolved x)
       (simp add: reraise_http_def tool_count_entry_keys py_or_def example_search_def x)
  have b: "fst (search_and_summarize example_env_unreadable (lifespan example_db) example_search) =
     Inr \<lparr>sr_success = False, sr_query = ''isabelle'', sr_summary = [],
          sr_search_results = None, sr_sources_count = 0,
          sr_error = Some ''invalid literal for int()''\<rparr>"
    by (simp only: search_and_summarize_def search_and_summarize_try_def
          example_search_resolved y)
       (simp add: reraise_http_def tool_count_entry_keys py_or_def example_search_def y p m)
  show ?thesis using a b by simp
qed

text \<open>
  Claim C2, amended. When the search agent succeeds, the operation returns a
  \<open>SearchResponse\<close> in every case. The entry read from the metadata mapping is the value
  under \<open>tool_run_count\<close>, else the value under \<open>tools_used\<close>, else 0. The count of the
  response is the entry when it is an integer (a boolean counts as 0 or 1), the entry
  cut towards zero when it is a finite float, and the integer a non-empty string reads
  as; it is 0, in a successful response, when the metadata mapping is absent or the
  entry is \<open>None\<close>, the empty string or another value that counts as false. When
  \<^verbatim>\<open>int()\<close> rejects the entry (a string that does not read as an integer, an infinite
  float or NaN, another object that counts as true) the response is the failure body of
  the catch-all, with \<open>success = False\<close>, an empty summary and the count 0.
\<close>

theorem search_sources_count:
  assumes "fst (get_or_create_agent st ''search'') = Inr ag"
    and "execute e ag (search_prompt (sq_query q)) (Some True) = Inr r" and "success r"
  shows "\<exists>b. fst (search_and_summarize e st q) = Inr b
     \<and> sr_query b = sq_query q
     \<and> (sr_success b \<longrightarrow> sr_summary b = content r)
     \<and> (\<not> sr_success b \<longrightarrow> sr_summary b = [] \<and> sr_sources_count b = 0)
     \<and> (metadata r = None \<longrightarrow> sr_success b \<and> sr_sources_count b = 0)
     \<and> (\<forall>md. metadata r = Some md \<longrightarrow>
          (\<forall>v. map_of md ''tool_run_count'' = Some v \<longrightarrow> sources_count_for_entry e v b)
          \<and> (map_of md ''tool_run_count'' = None \<longrightarrow>
               (\<forall>v. map_of md ''tools_used'' = Some v \<longrightarrow> sources_count_for_entry e v b))
          \<and> (map_of md ''tool_run_count'' = None \<longrightarrow> map_of md ''tools_used'' = None \<longrightarrow>
               sr_success b \<and> sr_sources_count b = 0))"
proof -
  obtain st1 where st1: "get_or_create_agent st ''search'' = (Inr ag, st1)"
    using assms(1) by (cases "get_or_create_agent st ''search''") auto
  let ?md = "case metadata r of None \<Rightarrow> [] | Some m \<Rightarrow> m"
  from search_entry_table [OF st1 assms(2,3) refl]
  obtain b where b: "fst (search_and_summarize e st q) = Inr b" "sr_query b = sq_query q"
    "sr_success b \<longrightarrow> sr_summary b = content r"
    "\<not> sr_success b \<longrightarrow> sr_summary b = [] \<and> sr_sources_count b = 0"
    "sources_count_for_entry e (tool_count_entry ?md) b"
    by blast
  have absent: "sr_success b \<and> sr_sources_count b = 0" if "metadata r = None"
    using b(5) that by (simp add: tool_count_entry_keys sources_count_for_entry_def)
  have first: "sources_count_for_entry e v b"
    if "metadata r = Some md" "map_of md ''tool_run_count'' = Some v" for md v
    using b(5) that by (simp add: tool_count_entry_keys)
  have second: "sources_count_for_entry e v b"
    if "metadata r = Some md" "map_of md ''tool_run_count'' = None"
      "map_of md ''tools_used'' = Some v" for md v
    using b(5) that by (simp add: tool_count_entry_keys)
  have neither: "sr_success b \<and> sr_sources_count b = 0"
    if "metadata r = Some md" "map_of md ''tool_run_count'' = None"
      "map_of md ''tools_used'' = None" for md
    using b(5) that by (simp add: tool_count_entry_keys sources_count_for_entry_def)
  show ?thesis
    using b(1-4) absent first second neither by (intro exI [of _ b]) blast
qed

theorem search_sources_count_witness:
  "(\<exists>b. fst (search_and_summarize example_env_tools (lifespan example_db) example_search) = Inr b
        \<and> sr_success b \<and> sr_sources_count b = 3 \<and> sr_summary b = ''Summary'')
   \<and> (\<exists>b. fst (search_and_summarize example_env_fallback (lifespan example_db) example_search) = Inr b
        \<and> sr_success b \<and> sr_sources_count b = 4 \<and> sr_summary b = ''Summary'')
   \<and> (\<exists>b. fst (search_and_summarize example_env (lifespan example_db) example_search) = Inr b
        \<and> sr_success b \<and> sr_sources_count b = 0 \<and> sr_summary b = ''Keep going'')"
proof -
  let ?tools = "\<lparr>success = True, content = ''Summary'',
              metadata = Some [(''model'', PStr ''m''), (''tool_run_count'', PInt 3)],
              error = None\<rparr>"
  let ?fallback = "\<lparr>success = True, content = ''Summary'',
              metadata = Some [(''tools_used'', PInt 4)], error = None\<rparr>"
  let ?plain = "\<lparr>success = True, content = ''Keep going'', metadata = None, error = None\<rparr>"
  have x: "execute example_env_tools (SearchAgent AgentConfig 0)
      (search_prompt (sq_query example_search)) (Some True) = Inr ?tools"
    by (simp add: example_env_tools_def)
  have y: "execute example_env_fallback (SearchAgent AgentConfig 0)
      (search_prompt (sq_query example_search)) (Some True) = Inr ?fallback"
    by (simp add: example_env_fallback_def)
  have z: "execute example_env (SearchAgent AgentConfig 0)
      (search_prompt (sq_query example_search)) (Some True) = Inr ?plain"
    by (simp add: example_env_def)
  have s: "success ?tools" "success ?fallback" "success ?plain" by simp_all
  from search_sources_count [OF example_search_agent x s(1)]
  obtain b1 where b1:
    "fst (search_and_summarize example_env_tools (lifespan example_db) example_search) = Inr b1"
    "sr_success b1 \<longrightarrow> sr_summary b1 = content ?tools"
    "\<forall>md. metadata ?tools = Some md \<longrightarrow>
       (\<forall>v. map_of md ''tool_run_count'' = Some v \<longrightarrow> sources_count_for_entry example_env_tools v b1)"
    by blast
  have m1: "metadata ?tools = Some [(''model'', PStr ''m''), (''tool_run_count'', PInt 3)]"
    and k1: "map_of [(''model'', PStr ''m''), (''tool_run_count'', PInt 3)] ''tool_run_count''
        = Some (PInt 3)"
    by simp_all
  have "sources_count_for_entry example_env_tools (PInt 3) b1"
    using b1(3) m1 k1 by blast
  then have a: "\<exists>b. fst (search_and_summarize example_env_tools (lifespan example_db) example_search) = Inr b
        \<and> sr_success b \<and> sr_sources_count b = 3 \<and> sr_summary b = ''Summary''"
    using b1(1,2) by (simp add: sources_count_for_entry_def)
  from search_sources_count [OF example_search_agent y s(2)]
  obtain b2 where b2:
    "fst (search_and_summarize example_env_fallback (lifespan example_db) example_search) = Inr b2"
    "sr_success b2 \<longrightarrow> sr_summary b2 = content ?fallback"
    "\<forall>md. metadata ?fallback = Some md \<longrightarrow>
       (map_of md ''tool_run_count'' = None \<longrightarrow>
          (\<forall>v. map_of md ''tools_used'' = Some v \<longrightarrow> sources_count_for_entry example_env_fallback v b2))"
    by blast
  have m2: "metadata ?fallback = Some [(''tools_used'', PInt 4)]"
    and k2: "map_of [(''tools_used'', PInt 4)] ''tool_run_count'' = None"
      "map_of [(''tools_used'', PInt 4)] ''tools_used'' = Some (PInt 4)"
    by simp_all
  have "sources_count_for_entry example_env_fallback (PInt 4) b2"
    using b2(3) m2 k2 by blast
  then have b: "\<exists>b. fst (search_and_summarize example_env_fallback (lifespan example_db) example_search) = Inr b
        \<and> sr_success b \<and> sr_sources_count b = 4 \<and> sr_summary b = ''Summary''"
    using b2(1,2) by (simp add: sources_count_for_entry_def)
  from search_sources_count [OF example_search_agent z s(3)]
  have c: "\<exists>b. fst (search_and_summarize example_env (lifespan example_db) example_search) = Inr b
        \<and> sr_success b \<and> sr_sources_count b = 0 \<and> sr_summary b = ''Keep going''"
    by fastforce
  show ?thesis using a b c by blast
qed

section \<open>Companion chat\<close>

lemma resolve_db: "db (snd (get_or_create_agent st t)) = db st"
  by (auto simp: get_or_create_agent_def get_agent_cache_def Let_def split: option.splits)

lemma store_down_token_accepted:
  "current_user_dependency example_env_store_down
      (Some (create_token example_env_store_down uid un)) =
     Inr \<lparr>p_user_id = uid, p_username = un, p_exp = 605800\<rparr>"
proof -
  have t: "now example_env_store_down = 1000"
    by (simp add: example_env_store_down_def example_env_def)
  have "get_current_user example_env_store_down
      (Jws (JWT_SECRET example_env_store_down) JWT_ALGORITHM
         \<lparr>p_user_id = uid, p_username = un, p_exp = now example_env_store_down + 604800\<rparr>) =
    Inr \<lparr>p_user_id = uid, p_username = un, p_exp = now example_env_store_down + 604800\<rparr>"
    by (simp only: verify_signed) (simp add: t)
  then show ?thesis
    by (simp add: current_user_dependency_def security_def create_token_eq t)
qed

text \<open>
  Claim C4 as stated fails: the agent answers \<open>Keep going\<close> with success, the append to
  the history raises, and the response has \<open>success = False\<close>, an empty response text
  and, as its error, only the text of the store's exception.
\<close>

theorem motivational_chat_store_down_counterexample:
  "execute example_env_store_down (ChatAgent AgentConfig 0) (motivational_prompt ''hello'') None =
     Inr \<lparr>success = True, content = ''Keep going'', metadata = None, error = None\<rparr>
   \<and> fst (motivational_chat example_env_store_down (lifespan example_db)
          (Some (create_token example_env_store_down ''id-0'' ''ada'')) ''hello'') =
     Inr \<lparr>mc_success = False, mc_response = [], mc_timestamp = 1000,
          mc_error = Some ''store unreachable''\<rparr>"
proof -
  have a: "execute example_env_store_down (ChatAgent AgentConfig 0)
       (motivational_prompt ''hello'') None =
     Inr \<lparr>success = True, content = ''Keep going'', metadata = None, error = None\<rparr>"
    by (simp add: example_env_store_down_def example_env_def)
  have t: "now example_env_store_down = 1000"
    and f: "store_fault example_env_store_down 0 = Some ''store unreachable''"
    by (simp_all add: example_env_store_down_def example_env_def)
  have "fst (motivational_chat example_env_store_down (lifespan example_db)
          (Some (create_token example_env_store_down ''id-0'' ''ada'')) ''hello'') =
     Inr \<lparr>mc_success = False, mc_response = [], mc_timestamp = 1000,
          mc_error = Some ''store unreachable''\<rparr>"
    by (simp only: motivational_chat_def store_down_token_accepted motivational_chat_try_def
          example_first_chat a)
       (simp add: reraise_http_def ensure_db_def lifespan_def insert_one_def f t a)
  then show ?thesis using a by simp
qed

text \<open>
  Claim C4, amended. When the agent succeeds and the append to the history raises, the
  request does not crash: the operation returns, through the catch-all, a structured
  response with \<open>success = False\<close>, an empty response text and the text of the store's
  exception as its error, and the store is left as it was. The text the agent produced
  is not part of the response.
\<close>

theorem motivational_chat_insert_failure:
  assumes "current_user_dependency e cred = Inr cu" and "db st = Some d"
    and "fst (get_or_create_agent st ''chat'') = Inr ag"
    and "execute e ag (motivational_prompt m) None = Inr r" and "success r"
    and "store_fault e 0 = Some x"
  shows "fst (motivational_chat e st cred m) =
       Inr \<lparr>mc_success = False, mc_response = [], mc_timestamp = now e, mc_error = Some x\<rparr>
     \<and> db (snd (motivational_chat e st cred m)) = db st"
proof -
  obtain st1 where st1: "get_or_create_agent st ''chat'' = (Inr ag, st1)"
    using assms(3) by (cases "get_or_create_agent st ''chat''") auto
  have "db st1 = db st" using resolve_db [of st "''chat''"] st1 by simp
  then show ?thesis using assms st1
    by (simp add: motivational_chat_def motivational_chat_try_def reraise_http_def
        ensure_db_def insert_one_def)
qed

theorem motivational_chat_insert_failure_witness:
  "fst (motivational_chat example_env_store_down (lifespan example_db_ada)
          (Some (create_token example_env_store_down ''id-0'' ''ada'')) ''a hard day'') =
       Inr \<lparr>mc_success = False, mc_response = [], mc_timestamp = 1000,
            mc_error = Some ''store unreachable''\<rparr>
   \<and> db (snd (motivational_chat example_env_store_down (lifespan example_db_ada)
          (Some (create_token example_env_store_down ''id-0'' ''ada'')) ''a hard day'')) =
       Some example_db_ada"
proof -
  have a: "db (lifespan example_db_ada) = Some example_db_ada"
    by (simp add: lifespan_def)
  have g: "fst (get_or_create_agent (lifespan example_db_ada) ''chat'') = Inr (ChatAgent AgentConfig 0)"
    by (simp add: resolve_chat cache_lookup_def lifespan_def)
  have x: "execute example_env_store_down (ChatAgent AgentConfig 0)
       (motivational_prompt ''a hard day'') None =
     Inr \<lparr>success = True, content = ''Keep going'', metadata = None, error = None\<rparr>"
    by (simp add: example_env_store_down_def example_env_def)
  have s: "success \<lparr>success = True, content = ''Keep going'', metadata = None, error = None\<rparr>"
    by simp
  have t: "now example_env_store_down = 1000"
    and f: "store_fault example_env_store_down 0 = Some ''store unreachable''"
    by (simp_all add: example_env_store_down_def example_env_def)
  from motivational_chat_insert_failure [OF store_down_token_accepted a g x s f]
  show ?thesis by (simp add: t a)
qed

section \<open>Responses of the operations\<close>


















end
